theory Spec2Isabelle
  imports Main "HOL-Library.Word"
begin

section \<open>The request handlers of the file cache service (CategoryHandler.cpp)\<close>

text \<open>
  The development embeds the request handlers of \<^verbatim>\<open>CategoryHandler\<close>. The handlers
  are the code of the repository that is available; the cache set they drive
  (\<^verbatim>\<open>CFileCacheSet\<close>), the helpers of \<^verbatim>\<open>CacheBase.h\<close>, the sandbox check and the
  filesystem are used through their calls only. Each of them is therefore a parameter of
  the embedding: a handler takes a record of the methods it calls, and a theorem about a
  handler holds for every implementation of these methods.

  Conventions.
  \<^item> \<^verbatim>\<open>MojInt64\<close>, \<^verbatim>\<open>cacheSize_t\<close> and \<^verbatim>\<open>paramValue_t\<close> values are \<open>int\<close>; the handlers
    only compare and forward them, the casts to the narrower types (declared in the
    absent \<^verbatim>\<open>CacheBase.h\<close>) are taken as the identity.
  \<^item> \<^verbatim>\<open>cachedObjectId_t\<close> is an unsigned 64 bit integer (asserted in \<^verbatim>\<open>main\<close>).
  \<^item> A handler returns the new handler state and the reply it sends; a failure of the
    transport while replying (\<^verbatim>\<open>MojErrCheck\<close>) is not modelled.
  \<^item> Payloads have passed the schema of the method
    (\<^verbatim>\<open>LUNA_METHOD_FLAG_VALIDATE_IN\<close>): a property that is present has the type the
    schema gives it.
\<close>

subsection \<open>Error codes, payloads and replies\<close>

text \<open>The error codes used by the handlers (the enumerators of the absent
  \<^verbatim>\<open>FileCacheError.h\<close> that \<^verbatim>\<open>CategoryHandler.cpp\<close> names).\<close>

datatype FCErr =
    FCErrorNone
  | FCInvalidParams
  | FCExistsError
  | FCInUseError
  | FCDefineError
  | FCChangeError
  | FCDeleteError
  | FCResizeError
  | FCPermError
  | FCArgumentError
  | FCDirectoryError
  | FCConfigurationError

datatype jvalue = JInt int | JBool bool | JString string

type_synonym MojObject = "string \<rightharpoonup> jvalue"

datatype reply =
    replySuccess "(string \<times> jvalue) list"
  | replyError FCErr string

text \<open>\<^verbatim>\<open>payload.get(key, var)\<close> leaves \<open>var\<close> at its initial value when the key is
  absent and tells whether it was found.\<close>

definition get_found :: "MojObject \<Rightarrow> string \<Rightarrow> bool" where
  "get_found payload key = (payload key \<noteq> None)"

definition get_int :: "MojObject \<Rightarrow> string \<Rightarrow> int \<Rightarrow> int" where
  "get_int payload key init = (case payload key of Some (JInt n) \<Rightarrow> n | _ \<Rightarrow> init)"

definition get_bool :: "MojObject \<Rightarrow> string \<Rightarrow> bool \<Rightarrow> bool" where
  "get_bool payload key init = (case payload key of Some (JBool b) \<Rightarrow> b | _ \<Rightarrow> init)"

definition get_string :: "MojObject \<Rightarrow> string \<Rightarrow> string" where
  "get_string payload key = (case payload key of Some (JString s) \<Rightarrow> s | _ \<Rightarrow> '''')"

abbreviation quote :: string where
  "quote \<equiv> [CHR 0x27]"

subsection \<open>The collaborators of the handlers\<close>

type_synonym cachedObjectId_t = "64 word"

record CCacheParamValues =
  GetLoWatermark :: int
  GetHiWatermark :: int
  GetSize :: int
  GetCost :: int
  GetLifetime :: int

text \<open>The methods of \<^verbatim>\<open>CFileCacheSet\<close> that the handlers call, over a cache set state
  \<open>'cs\<close>. A method that writes its \<^verbatim>\<open>msgText\<close> argument returns the text; a method that
  changes the cache set returns the new state. The queries are taken to be free of
  effects.\<close>

record 'cs CFileCacheSet_methods =
  cs_TypeExists :: "'cs \<Rightarrow> string \<Rightarrow> bool"
  cs_DescribeType :: "'cs \<Rightarrow> string \<Rightarrow> CCacheParamValues"
  cs_isTypeDirType :: "'cs \<Rightarrow> string \<Rightarrow> bool"
  cs_GetBaseDirName :: "'cs \<Rightarrow> string"
  cs_GetTypeForObjectId :: "'cs \<Rightarrow> cachedObjectId_t \<Rightarrow> string"
  cs_CachedObjectSize :: "'cs \<Rightarrow> cachedObjectId_t \<Rightarrow> int"
  cs_CachedObjectFilename :: "'cs \<Rightarrow> cachedObjectId_t \<Rightarrow> string"
  cs_DefineType :: "'cs \<Rightarrow> string \<Rightarrow> CCacheParamValues \<Rightarrow> bool \<Rightarrow> bool \<times> string \<times> 'cs"
  cs_ChangeType :: "'cs \<Rightarrow> string \<Rightarrow> CCacheParamValues \<Rightarrow> bool \<times> string \<times> 'cs"
  cs_InsertCacheObject ::
    "'cs \<Rightarrow> string \<Rightarrow> string \<Rightarrow> int \<Rightarrow> int \<Rightarrow> int \<Rightarrow> cachedObjectId_t \<times> string \<times> 'cs"
  cs_SubscribeCacheObject :: "'cs \<Rightarrow> string \<Rightarrow> cachedObjectId_t \<Rightarrow> string \<times> string \<times> 'cs"
  cs_UnSubscribeCacheObject :: "'cs \<Rightarrow> string \<Rightarrow> cachedObjectId_t \<Rightarrow> 'cs"
  cs_ExpireCacheObject :: "'cs \<Rightarrow> cachedObjectId_t \<Rightarrow> bool \<times> 'cs"
  cs_CleanupOrphans :: "'cs \<Rightarrow> 'cs"
  cs_CheckSubscribedObject :: "'cs \<Rightarrow> string \<Rightarrow> cachedObjectId_t \<Rightarrow> 'cs"
  cs_CleanupDirTypes :: "'cs \<Rightarrow> 'cs"

text \<open>The free functions and constants of \<^verbatim>\<open>CacheBase.h\<close> that the handlers use.\<close>

record CacheBase =
  GetObjectIdFromPath :: "string \<Rightarrow> cachedObjectId_t"
  GetTypeNameFromPath :: "string \<Rightarrow> string \<Rightarrow> string"
  BuildPathname :: "cachedObjectId_t \<Rightarrow> string \<Rightarrow> string \<Rightarrow> string \<Rightarrow> string"
  GetFilesystemFileSize :: "int \<Rightarrow> int"
  GetFileExtension :: "string \<Rightarrow> string"
  GetFileBasename :: "string \<Rightarrow> string"
  s_maxUniqueFileIndex :: int
  s_defaultDownloadDir :: string

text \<open>A \<^verbatim>\<open>Subscription\<close> is created for one request message and keeps it; the model
  identifies the object with that message, so the pointer comparison
  \<^verbatim>\<open>it->get() == sub\<close> is the comparison of the messages.\<close>

record Subscription =
  m_msg :: nat
  m_pathName :: string

record 'cs CategoryHandler =
  m_fileCacheSet :: 'cs
  m_subscribers :: "Subscription list"

subsection \<open>DefineType\<close>

text \<open>\<^verbatim>\<open>CategoryHandler::DefineType\<close>. The first argument is the preprocessor symbol
  \<^verbatim>\<open>NEEDS_CONFIGURATOR_FIX\<close>; the specification describes the build without it as the active one.\<close>

definition DefineType ::
  "bool \<Rightarrow> 'cs CFileCacheSet_methods \<Rightarrow> 'cs CategoryHandler \<Rightarrow> MojObject
    \<Rightarrow> 'cs CategoryHandler \<times> reply" where
  "DefineType NEEDS_CONFIGURATOR_FIX cs h payload =
    (let typeName = get_string payload ''typeName'';
         loWatermark = get_int payload ''loWatermark'' 0;
         hiWatermark = get_int payload ''hiWatermark'' 0;
         size = get_int payload ''size'' 0;
         cost = get_int payload ''cost'' 0;
         lifetime = get_int payload ''lifetime'' 0;
         dirType = get_bool payload ''dirType'' False;
         msgText = (if hiWatermark \<le> loWatermark
            then ''DefineType: Invalid params: hiWatermark must be greater than loWatermark.''
            else '''')
     in if msgText \<noteq> '''' then (h, replyError FCInvalidParams msgText)
        else
          let params = \<lparr>GetLoWatermark = loWatermark, GetHiWatermark = hiWatermark,
                        GetSize = size, GetCost = cost, GetLifetime = lifetime\<rparr>
          in if cs_TypeExists cs (m_fileCacheSet h) typeName then
               (let msgText = ''DefineType: Type '' @ quote @ typeName @ quote @ '' ''
                in if NEEDS_CONFIGURATOR_FIX
                      \<and> params \<noteq> cs_DescribeType cs (m_fileCacheSet h) typeName
                   then (h, replyError FCConfigurationError
                              (msgText @ ''has different configuration.''))
                   else (h, replyError FCExistsError (msgText @ ''already exists.'')))
             else
               (case cs_DefineType cs (m_fileCacheSet h) typeName params dirType of
                  (True, msgText, s') \<Rightarrow> (h\<lparr>m_fileCacheSet := s'\<rparr>, replySuccess [])
                | (False, msgText, s') \<Rightarrow>
                    (h\<lparr>m_fileCacheSet := s'\<rparr>, replyError FCDefineError msgText)))"

subsection \<open>ChangeType\<close>

text \<open>\<^verbatim>\<open>CategoryHandler::ChangeType\<close>. A property the request omits keeps the initial
  value 0 of its variable; the check compares the two variables.\<close>

definition ChangeType ::
  "'cs CFileCacheSet_methods \<Rightarrow> 'cs CategoryHandler \<Rightarrow> MojObject
    \<Rightarrow> 'cs CategoryHandler \<times> reply" where
  "ChangeType cs h payload =
    (let typeName = get_string payload ''typeName'';
         loWatermark = get_int payload ''loWatermark'' 0;
         hiWatermark = get_int payload ''hiWatermark'' 0;
         size = get_int payload ''size'' 0;
         cost = get_int payload ''cost'' 0;
         lifetime = get_int payload ''lifetime'' 0;
         msgText = (if hiWatermark \<noteq> 0 \<and> hiWatermark \<le> loWatermark
            then ''ChangeType: Invalid params: hiWatermark must be greater than loWatermark.''
            else [])
     in if msgText \<noteq> [] then (h, replyError FCInvalidParams msgText)
        else
          let params = \<lparr>GetLoWatermark = loWatermark, GetHiWatermark = hiWatermark,
                        GetSize = size, GetCost = cost, GetLifetime = lifetime\<rparr>
          in case cs_ChangeType cs (m_fileCacheSet h) typeName params of
               (True, msgText, s') \<Rightarrow> (h\<lparr>m_fileCacheSet := s'\<rparr>, replySuccess [])
             | (False, msgText, s') \<Rightarrow>
                 (h\<lparr>m_fileCacheSet := s'\<rparr>, replyError FCChangeError msgText))"

subsection \<open>InsertCacheObject\<close>

text \<open>\<^verbatim>\<open>CategoryHandler::InsertCacheObject\<close> for the request message \<open>msg\<close>. The size,
  cost and lifetime come from the payload or, when it omits them, from the parameters
  \<^verbatim>\<open>DescribeType\<close> returns.\<close>

definition InsertCacheObject ::
  "'cs CFileCacheSet_methods \<Rightarrow> CacheBase \<Rightarrow> 'cs CategoryHandler \<Rightarrow> nat \<Rightarrow> MojObject
    \<Rightarrow> 'cs CategoryHandler \<times> reply" where
  "InsertCacheObject cs cb h msg payload =
    (let s = m_fileCacheSet h;
         typeName = get_string payload ''typeName'';
         fileName = get_string payload ''fileName'';
         msgText = (if \<not> cs_TypeExists cs s typeName
            then ''InsertCacheObject: No type '' @ quote @ typeName @ quote @ '' defined.''
            else []);
         params = cs_DescribeType cs s typeName;
         subscribed = get_bool payload ''subscribe'' False;
         size = get_int payload ''size'' (GetSize params);
         cost = get_int payload ''cost'' (GetCost params);
         lifetime = get_int payload ''lifetime'' (GetLifetime params);
         msgText = (if size \<le> GetFilesystemFileSize cb 1 \<and> cs_isTypeDirType cs s typeName
            then ''InsertCacheObject: Invalid params: size must be greater than 1 block when dirType = true.''
            else msgText)
     in if msgText \<noteq> [] then (h, replyError FCInvalidParams msgText)
        else
          case cs_InsertCacheObject cs s typeName fileName size cost lifetime of
            (objId, msgText, s1) \<Rightarrow>
              if 0 < objId then
                if subscribed then
                  (case cs_SubscribeCacheObject cs s1 msgText objId of
                     (fpath, msgText, s2) \<Rightarrow>
                       if fpath \<noteq> [] then
                         (h\<lparr>m_fileCacheSet := s2,
                            m_subscribers :=
                              m_subscribers h @ [\<lparr>m_msg = msg, m_pathName = fpath\<rparr>]\<rparr>,
                          replySuccess [(''subscribed'', JBool True), (''pathName'', JString fpath)])
                       else (h\<lparr>m_fileCacheSet := s2\<rparr>, replySuccess [(''pathName'', JString [])]))
                else
                  (h\<lparr>m_fileCacheSet := s1\<rparr>,
                   replySuccess
                     [(''pathName'',
                       JString (BuildPathname cb objId (cs_GetBaseDirName cs s1) typeName fileName))])
              else (h\<lparr>m_fileCacheSet := s1\<rparr>, replyError FCExistsError msgText))"

subsection \<open>ExpireCacheObject\<close>

text \<open>\<^verbatim>\<open>CategoryHandler::ExpireCacheObject\<close>. The branches compute the message text, the
  error code and the cache set; an empty text at the end means success.\<close>

definition ExpireCacheObject ::
  "'cs CFileCacheSet_methods \<Rightarrow> CacheBase \<Rightarrow> 'cs CategoryHandler \<Rightarrow> MojObject
    \<Rightarrow> 'cs CategoryHandler \<times> reply" where
  "ExpireCacheObject cs cb h payload =
    (let s = m_fileCacheSet h;
         pathName = get_string payload ''pathName'';
         objId = GetObjectIdFromPath cb pathName;
         (msgText, errCode, s') =
           (if 0 < objId then
              if GetTypeNameFromPath cb (cs_GetBaseDirName cs s) pathName
                   = cs_GetTypeForObjectId cs s objId
              then
                (case cs_ExpireCacheObject cs s objId of
                   (True, s') \<Rightarrow> ([], FCErrorNone, s')
                 | (False, s') \<Rightarrow>
                     (''ExpireCacheObject: Expire deferred, object in use.'', FCInUseError, s'))
              else
                if GetTypeNameFromPath cb (cs_GetBaseDirName cs s) pathName = []
                then (''ExpireCacheObject: pathName no longer found in cache.'', FCExistsError, s)
                else ([], FCErrorNone, s)
            else
              (''ExpireCacheObject: Invalid object id derived from pathname.'', FCExistsError, s))
     in if msgText \<noteq> [] then (h\<lparr>m_fileCacheSet := s'\<rparr>, replyError errCode msgText)
        else (h\<lparr>m_fileCacheSet := s'\<rparr>, replySuccess []))"

subsection \<open>SubscribeCacheObject\<close>

text \<open>\<^verbatim>\<open>CategoryHandler::SubscribeCacheObject\<close> for the request message \<open>msg\<close>. The
  subscription stores the path of the request, after the checks on it.\<close>

definition SubscribeCacheObject ::
  "'cs CFileCacheSet_methods \<Rightarrow> CacheBase \<Rightarrow> 'cs CategoryHandler \<Rightarrow> nat \<Rightarrow> MojObject
    \<Rightarrow> 'cs CategoryHandler \<times> reply" where
  "SubscribeCacheObject cs cb h msg payload =
    (let s = m_fileCacheSet h;
         pathName = get_string payload ''pathName'';
         objId = GetObjectIdFromPath cb pathName
     in if objId = 0
        then (h, replyError FCExistsError ''Invalid object id derived from pathname.'')
        else
          (let type = GetTypeNameFromPath cb (cs_GetBaseDirName cs s) pathName
           in if type \<noteq> cs_GetTypeForObjectId cs s objId
              then (h, replyError FCExistsError
                         (quote @ ''pathName'' @ quote @ '': '' @ pathName
                            @ '' no longer found in cache.''))
              else
                (case cs_SubscribeCacheObject cs s [] objId of
                   (fpath, errorText, s') \<Rightarrow>
                     if fpath = [] \<or> errorText \<noteq> []
                     then (h\<lparr>m_fileCacheSet := s'\<rparr>,
                           replyError FCExistsError
                             (if errorText \<noteq> [] then errorText
                              else ''Could not find object to match derived id.''))
                     else (h\<lparr>m_fileCacheSet := s',
                              m_subscribers :=
                                m_subscribers h @ [\<lparr>m_msg = msg, m_pathName = pathName\<rparr>]\<rparr>,
                           replySuccess [(''subscribed'', JBool True)]))))"

subsection \<open>Cancelling a subscription\<close>

text \<open>The loop of \<^verbatim>\<open>CancelSubscription\<close> over \<^verbatim>\<open>m_subscribers\<close>: the first entry that is
  the subscription \<open>sub\<close> is erased, and the loop stops.\<close>

fun erase_subscription :: "Subscription \<Rightarrow> Subscription list \<Rightarrow> Subscription list" where
  "erase_subscription sub [] = []"
| "erase_subscription sub (x # xs) =
     (if m_msg x = m_msg sub then xs else x # erase_subscription sub xs)"

definition CancelSubscription ::
  "'cs CFileCacheSet_methods \<Rightarrow> CacheBase \<Rightarrow> 'cs CategoryHandler \<Rightarrow> Subscription \<Rightarrow> string
    \<Rightarrow> 'cs CategoryHandler" where
  "CancelSubscription cs cb h sub pathName =
    (let s = m_fileCacheSet h;
         objId = GetObjectIdFromPath cb pathName;
         s' = (if 0 < objId then
                 (let typeName = GetTypeNameFromPath cb (cs_GetBaseDirName cs s) pathName
                  in if typeName \<noteq> [] then cs_UnSubscribeCacheObject cs s typeName objId
                     else s)
               else s)
     in h\<lparr>m_fileCacheSet := s', m_subscribers := erase_subscription sub (m_subscribers h)\<rparr>)"

text \<open>\<^verbatim>\<open>Subscription::HandleCancel\<close>, which the message calls when it is cancelled.\<close>

definition HandleCancel ::
  "'cs CFileCacheSet_methods \<Rightarrow> CacheBase \<Rightarrow> 'cs CategoryHandler \<Rightarrow> Subscription
    \<Rightarrow> 'cs CategoryHandler" where
  "HandleCancel cs cb h sub = CancelSubscription cs cb h sub (m_pathName sub)"

subsection \<open>CopyCacheObject\<close>

text \<open>The sandbox check and the filesystem calls of \<^verbatim>\<open>CopyCacheObject\<close>, over a
  filesystem state \<open>'fs\<close>. A call of \<^verbatim>\<open>boost::filesystem\<close> returns its value or throws a
  \<^verbatim>\<open>filesystem_error\<close>, of which the handler reads the error code, \<^verbatim>\<open>what()\<close> and the
  message of the code. \<open>path_append\<close> is \<^verbatim>\<open>operator/\<close> on paths. \<open>SBIsPathAllowed\<close> is
  called with the flags \<^verbatim>\<open>SB_WRITE | SB_CREATE\<close>.\<close>

record filesystem_error =
  code_value :: int
  what :: string
  code_message :: string

record 'fs Platform =
  SBIsPathAllowed :: "string \<Rightarrow> string \<Rightarrow> bool"
  fs_exists :: "'fs \<Rightarrow> string \<Rightarrow> filesystem_error + bool"
  fs_create_directories :: "'fs \<Rightarrow> string \<Rightarrow> filesystem_error + 'fs"
  fs_is_directory :: "'fs \<Rightarrow> string \<Rightarrow> filesystem_error + bool"
  path_append :: "string \<Rightarrow> string \<Rightarrow> string"

text \<open>What the handler does next: it replies, or it hands the request to the
  asynchronous copier (\<^verbatim>\<open>CopyFile(msg, source, destination)\<close>), which replies later.\<close>

datatype outcome = Reply reply | CopyFile string string

text \<open>The decimal digits that \<^verbatim>\<open>operator<<\<close> writes for an \<^verbatim>\<open>int\<close>.\<close>

fun show_nat :: "nat \<Rightarrow> string" where
  "show_nat n =
     (if n < 10 then [''0123456789'' ! n]
      else show_nat (n div 10) @ [''0123456789'' ! (n mod 10)])"

declare show_nat.simps [simp del]

definition show_int :: "int \<Rightarrow> string" where
  "show_int i = (if i < 0 then ''-'' @ show_nat (nat (- i)) else show_nat (nat i))"

text \<open>The name the loop builds:
  \<^verbatim>\<open>newFileName << basename << "-(" << i++ << ")" << extension\<close>.\<close>

definition newFileName :: "string \<Rightarrow> string \<Rightarrow> int \<Rightarrow> string" where
  "newFileName basename extension i = basename @ ''-('' @ show_int i @ '')'' @ extension"

text \<open>The loop
  \<^verbatim>\<open>while (fs::exists(filepath / fileName) && (i < s_maxUniqueFileIndex))\<close>. It returns
  the file name and the index it ends with, or the error \<^verbatim>\<open>fs::exists\<close> throws.\<close>

function unique_name_loop ::
  "'fs Platform \<Rightarrow> 'fs \<Rightarrow> int \<Rightarrow> string \<Rightarrow> string \<Rightarrow> string \<Rightarrow> string \<Rightarrow> int
    \<Rightarrow> filesystem_error + string \<times> int" where
  "unique_name_loop pf fs maxIndex filepath basename extension fileName i =
     (case fs_exists pf fs (path_append pf filepath fileName) of
        Inl ex \<Rightarrow> Inl ex
      | Inr found \<Rightarrow>
          if found \<and> i < maxIndex
          then unique_name_loop pf fs maxIndex filepath basename extension
                 (newFileName basename extension i) (i + 1)
          else Inr (fileName, i))"
  by pat_completeness auto
termination
  by (relation "measure (\<lambda>(pf, fs, maxIndex, filepath, basename, extension, fileName, i).
        nat (maxIndex - i))") auto

declare unique_name_loop.simps [simp del]

text \<open>The body of the \<^verbatim>\<open>try\<close> block. It returns the filesystem it leaves behind and
  either the error thrown, or the message text, error code and destination file name it
  assigns (\<open>None\<close> for a text and code it leaves as they were).\<close>

definition find_destination ::
  "'fs Platform \<Rightarrow> CacheBase \<Rightarrow> 'fs \<Rightarrow> string \<Rightarrow> string
    \<Rightarrow> 'fs \<times> (filesystem_error + (string \<times> FCErr) option \<times> string)" where
  "find_destination pf cb fs destination fileName =
    (let filepath = destination in
     case fs_exists pf fs filepath of
       Inl ex \<Rightarrow> (fs, Inl ex)
     | Inr present \<Rightarrow>
        (case (if \<not> present then fs_create_directories pf fs filepath else Inr fs) of
           Inl ex \<Rightarrow> (fs, Inl ex)
         | Inr fs1 \<Rightarrow>
            (case fs_is_directory pf fs1 filepath of
               Inl ex \<Rightarrow> (fs1, Inl ex)
             | Inr False \<Rightarrow>
                 (fs1, Inr (Some (''CopyCacheObject: Invalid destination, not a directory.'',
                                  FCArgumentError), []))
             | Inr True \<Rightarrow>
                (let extension = GetFileExtension cb fileName;
                     basename = GetFileBasename cb fileName
                 in case unique_name_loop pf fs1 (s_maxUniqueFileIndex cb) filepath
                           basename extension fileName 1 of
                      Inl ex \<Rightarrow> (fs1, Inl ex)
                    | Inr (fileName, i) \<Rightarrow>
                        if i = s_maxUniqueFileIndex cb
                        then (fs1, Inr (Some (''CopyCacheObject: No unique destination name found.'',
                                              FCArgumentError), []))
                        else (fs1, Inr (None, filepath @ ''/'' @ fileName))))))"

text \<open>The first part of the handler: the object the path names and the file name of
  the copy. It yields the message text, the error code and the file name.\<close>

definition resolve_copy_source ::
  "'cs CFileCacheSet_methods \<Rightarrow> CacheBase \<Rightarrow> 'cs \<Rightarrow> MojObject \<Rightarrow> string \<times> FCErr \<times> string" where
  "resolve_copy_source cs cb s payload =
    (let pathName = get_string payload ''pathName'';
         param = get_string payload ''fileName'';
         found = get_found payload ''fileName'';
         objId = GetObjectIdFromPath cb pathName
     in if 0 < objId then
          if GetTypeNameFromPath cb (cs_GetBaseDirName cs s) pathName
               = cs_GetTypeForObjectId cs s objId
          then
            if cs_CachedObjectSize cs s objId < 0
            then (''CopyCacheObject: Could not locate object'', FCExistsError, [])
            else
              if found \<and> param \<noteq> [] then ([], FCErrorNone, param)
              else
                (let fileName = cs_CachedObjectFilename cs s objId
                 in if fileName = []
                    then (''CopyCacheObject: No fileName specified or found.'', FCArgumentError,
                          fileName)
                    else ([], FCErrorNone, fileName))
          else (''CopyCacheObject: pathName no longer found in cache.'', FCExistsError, [])
        else (''CopyCacheObject: Invalid object id derived from pathname.'', FCExistsError, []))"

text \<open>The destination directory: the one the request names, or the default.\<close>

definition copy_destination :: "CacheBase \<Rightarrow> MojObject \<Rightarrow> string" where
  "copy_destination cb payload =
    (let param = get_string payload ''destination'';
         found = get_found payload ''destination''
     in if found \<and> param \<noteq> [] then param else s_defaultDownloadDir cb)"

text \<open>\<^verbatim>\<open>CategoryHandler::CopyCacheObject\<close> for a request of the sender \<open>senderName\<close>. The
  handler only reads the cache set; it returns the filesystem it leaves behind and what
  it does with the request. A \<^verbatim>\<open>filesystem_error\<close> with the error code 0 is caught and
  changes nothing.\<close>

definition CopyCacheObject ::
  "'cs CFileCacheSet_methods \<Rightarrow> CacheBase \<Rightarrow> 'fs Platform \<Rightarrow> 'cs CategoryHandler \<Rightarrow> 'fs
    \<Rightarrow> string \<Rightarrow> MojObject \<Rightarrow> 'fs \<times> outcome" where
  "CopyCacheObject cs cb pf h fs senderName payload =
    (let pathName = get_string payload ''pathName'';
         destination = copy_destination cb payload;
         (msgText, errCode, fileName) = resolve_copy_source cs cb (m_fileCacheSet h) payload;
         (fs', msgText, errCode, destFileName) =
           (if \<not> SBIsPathAllowed pf destination senderName
            then (fs, ''CopyCacheObject: Invalid destination, no write permission.'',
                  FCPermError, [])
            else
              (case find_destination pf cb fs destination fileName of
                 (fs', Inl ex) \<Rightarrow>
                   if code_value ex \<noteq> 0
                   then (fs', ''CopyCacheObject: '' @ what ex @ '' ('' @ code_message ex @ '').'',
                         FCDirectoryError, [])
                   else (fs', msgText, errCode, [])
               | (fs', Inr (Some (text, code), destFileName)) \<Rightarrow> (fs', text, code, destFileName)
               | (fs', Inr (None, destFileName)) \<Rightarrow> (fs', msgText, errCode, destFileName)))
     in if msgText \<noteq> [] then (fs', Reply (replyError errCode msgText))
        else (fs', CopyFile pathName destFileName))"

text \<open>A file name is taken in a directory when \<^verbatim>\<open>fs::exists\<close> finds it there.\<close>

definition name_taken :: "'fs Platform \<Rightarrow> 'fs \<Rightarrow> string \<Rightarrow> string \<Rightarrow> bool" where
  "name_taken pf fs dir name = (fs_exists pf fs (path_append pf dir name) = Inr True)"

text \<open>What it means that a string is the decimal numeral of a number: it consists of
  digits, has no leading zero, and denotes the number. This is what \<^verbatim>\<open>operator<<\<close> writes
  for a number that is not negative.\<close>

definition digit_value :: "char \<Rightarrow> nat" where
  "digit_value c = of_char c - 48"

definition decimal_value :: "string \<Rightarrow> nat" where
  "decimal_value s = foldl (\<lambda>n c. 10 * n + digit_value c) 0 s"

definition is_decimal_of :: "string \<Rightarrow> int \<Rightarrow> bool" where
  "is_decimal_of s n =
     (s \<noteq> [] \<and> set s \<subseteq> set ''0123456789'' \<and> (hd s = CHR ''0'' \<longrightarrow> s = ''0'')
      \<and> int (decimal_value s) = n)"

subsection \<open>The maintenance handlers and their timers\<close>

text \<open>The loop of \<^verbatim>\<open>WorkerHandler\<close> over \<^verbatim>\<open>m_subscribers\<close>: each subscribed object is
  checked, with the object id and the type name derived from the path the subscription
  stores.\<close>

fun validate_subscribers ::
  "'cs CFileCacheSet_methods \<Rightarrow> CacheBase \<Rightarrow> Subscription list \<Rightarrow> 'cs \<Rightarrow> 'cs" where
  "validate_subscribers cs cb [] s = s"
| "validate_subscribers cs cb (sub # subs) s =
     (let objId = GetObjectIdFromPath cb (m_pathName sub);
          typeName = GetTypeNameFromPath cb (cs_GetBaseDirName cs s) (m_pathName sub)
      in validate_subscribers cs cb subs (cs_CheckSubscribedObject cs s typeName objId))"

definition WorkerHandler ::
  "'cs CFileCacheSet_methods \<Rightarrow> CacheBase \<Rightarrow> 'cs CategoryHandler \<Rightarrow> 'cs CategoryHandler" where
  "WorkerHandler cs cb h =
     h\<lparr>m_fileCacheSet :=
         validate_subscribers cs cb (m_subscribers h) (cs_CleanupOrphans cs (m_fileCacheSet h))\<rparr>"

definition CleanerHandler ::
  "'cs CFileCacheSet_methods \<Rightarrow> 'cs CategoryHandler \<Rightarrow> 'cs CategoryHandler" where
  "CleanerHandler cs h = h\<lparr>m_fileCacheSet := cs_CleanupDirTypes cs (m_fileCacheSet h)\<rparr>"

text \<open>The two callbacks handed to GLib. The result says whether the timeout source
  stays: \<^verbatim>\<open>TimerCallback\<close> returns \<^verbatim>\<open>true\<close>, \<^verbatim>\<open>CleanerCallback\<close> returns \<^verbatim>\<open>false\<close>
  ("return false here as this is a one shot").\<close>

datatype GSourceFunc = TimerCallback | CleanerCallback

fun callback ::
  "'cs CFileCacheSet_methods \<Rightarrow> CacheBase \<Rightarrow> GSourceFunc \<Rightarrow> 'cs CategoryHandler
    \<Rightarrow> 'cs CategoryHandler \<times> bool" where
  "callback cs cb TimerCallback self = (WorkerHandler cs cb self, True)"
| "callback cs cb CleanerCallback self = (CleanerHandler cs self, False)"

text \<open>The GLib main loop, as far as \<^verbatim>\<open>g_timeout_add_seconds\<close> uses it, in whole
  seconds: a timeout source calls its function every \<open>interval\<close> seconds until the
  function returns \<^verbatim>\<open>FALSE\<close>, and is destroyed then. \<open>calls\<close> records which function
  was called at which second.\<close>

record timeout_source =
  interval :: nat
  func :: GSourceFunc
  expires :: nat

record 'cs main_loop =
  now :: nat
  sources :: "timeout_source list"
  handler :: "'cs CategoryHandler"
  calls :: "(nat \<times> GSourceFunc) list"

definition g_timeout_add_seconds :: "nat \<Rightarrow> GSourceFunc \<Rightarrow> 'cs main_loop \<Rightarrow> 'cs main_loop" where
  "g_timeout_add_seconds n f ml =
     ml\<lparr>sources := sources ml @ [\<lparr>interval = n, func = f, expires = now ml + n\<rparr>]\<rparr>"

text \<open>\<^verbatim>\<open>CategoryHandler::SetupWorkerTimer\<close>, called by the constructor.\<close>

definition SetupWorkerTimer :: "'cs main_loop \<Rightarrow> 'cs main_loop" where
  "SetupWorkerTimer ml =
     g_timeout_add_seconds 120 CleanerCallback (g_timeout_add_seconds 15 TimerCallback ml)"

text \<open>Dispatching the sources that are due at the current second, in the order of
  their registration.\<close>

fun dispatch ::
  "'cs CFileCacheSet_methods \<Rightarrow> CacheBase \<Rightarrow> nat \<Rightarrow> timeout_source list
    \<Rightarrow> 'cs CategoryHandler \<times> (nat \<times> GSourceFunc) list
    \<Rightarrow> timeout_source list \<times> 'cs CategoryHandler \<times> (nat \<times> GSourceFunc) list" where
  "dispatch cs cb t [] (h, log) = ([], h, log)"
| "dispatch cs cb t (src # srcs) (h, log) =
     (if expires src \<le> t then
        (case callback cs cb (func src) h of
           (h', keep) \<Rightarrow>
             (case dispatch cs cb t srcs (h', log @ [(t, func src)]) of
                (srcs', r) \<Rightarrow>
                  ((if keep then [src\<lparr>expires := t + interval src\<rparr>] else []) @ srcs', r)))
      else
        (case dispatch cs cb t srcs (h, log) of (srcs', r) \<Rightarrow> (src # srcs', r)))"

definition tick :: "'cs CFileCacheSet_methods \<Rightarrow> CacheBase \<Rightarrow> 'cs main_loop \<Rightarrow> 'cs main_loop" where
  "tick cs cb ml =
     (case dispatch cs cb (now ml + 1) (sources ml) (handler ml, calls ml) of
        (srcs, h, log) \<Rightarrow> \<lparr>now = now ml + 1, sources = srcs, handler = h, calls = log\<rparr>)"

fun run :: "'cs CFileCacheSet_methods \<Rightarrow> CacheBase \<Rightarrow> nat \<Rightarrow> 'cs main_loop \<Rightarrow> 'cs main_loop" where
  "run cs cb 0 ml = ml"
| "run cs cb (Suc n) ml = tick cs cb (run cs cb n ml)"

text \<open>The main loop when the handler has been constructed at second 0
  (\<^verbatim>\<open>ServiceApp::open\<close>): no source but the two of \<^verbatim>\<open>SetupWorkerTimer\<close>.\<close>

definition startup :: "'cs CategoryHandler \<Rightarrow> 'cs main_loop" where
  "startup h = SetupWorkerTimer \<lparr>now = 0, sources = [], handler = h, calls = []\<rparr>"

text \<open>The sources that are registered after \<open>n\<close> seconds, and the calls that have been
  made by then: the worker at every multiple of 15 seconds, the cleaner at second 120.
  That the main loop is in this state is proved below.\<close>

definition timers_at :: "nat \<Rightarrow> timeout_source list" where
  "timers_at n =
     \<lparr>interval = 15, func = TimerCallback, expires = 15 * (n div 15) + 15\<rparr>
       # (if n < 120 then [\<lparr>interval = 120, func = CleanerCallback, expires = 120\<rparr>] else [])"

definition calls_until :: "nat \<Rightarrow> (nat \<times> GSourceFunc) set" where
  "calls_until n =
     {(t, f). f = TimerCallback \<and> 0 < t \<and> t \<le> n \<and> 15 dvd t}
       \<union> {(t, f). f = CleanerCallback \<and> t = 120 \<and> 120 \<le> n}"

section \<open>The cache set of the specification\<close>

text \<open>
  The source of \<^verbatim>\<open>CFileCacheSet\<close> is not part of the available files. Where a claim
  speaks of what the cache set does with an object or a type, the cache set is modelled
  after the specification (sections 3, 4.3, 4.4 and 4.5), as far as the claims need it.
\<close>

record CCachedObject =
  co_filename :: string
  co_size :: int
  co_cost :: int
  co_lifetime :: int
  createdAt :: nat
  lastAccessAt :: nat
  writeOpen :: bool
  subscriberCount :: nat
  pendingExpire :: bool

record CFileCache =
  fc_params :: CCacheParamValues
  fc_dirType :: bool
  fc_usedBytes :: int
  fc_objects :: "cachedObjectId_t \<rightharpoonup> CCachedObject"

text \<open>\<open>onDisk\<close> holds the object paths that exist under the cache root, each given by
  its type directory and the object id its shard and tail encode.\<close>

record CFileCacheSet =
  baseDirName :: string
  cacheTypes :: "string \<rightharpoonup> CFileCache"
  idMap :: "cachedObjectId_t \<rightharpoonup> string"
  idCounter :: cachedObjectId_t
  onDisk :: "(string \<times> cachedObjectId_t) set"

text \<open>Modelled from the spec: \<^verbatim>\<open>IsEvictable() = subscriberCount == 0 && !writeOpen\<close>
  (section 4.3; the class of the cached object is missing).\<close>

definition IsEvictable :: "CCachedObject \<Rightarrow> bool" where
  "IsEvictable ob = (subscriberCount ob = 0 \<and> \<not> writeOpen ob)"

text \<open>Modelled from the spec: \<^verbatim>\<open>TypeExists\<close>, \<^verbatim>\<open>DescribeType\<close> and the directory flag
  read the type registry (section 4.5; \<^verbatim>\<open>CFileCacheSet\<close> is missing). The specification
  does not say what \<^verbatim>\<open>DescribeType\<close> returns for an unknown name; the model returns
  zeros.\<close>

definition TypeExists :: "CFileCacheSet \<Rightarrow> string \<Rightarrow> bool" where
  "TypeExists s typeName = (cacheTypes s typeName \<noteq> None)"

definition DescribeType :: "CFileCacheSet \<Rightarrow> string \<Rightarrow> CCacheParamValues" where
  "DescribeType s typeName =
    (case cacheTypes s typeName of
       Some fc \<Rightarrow> fc_params fc
     | None \<Rightarrow> \<lparr>GetLoWatermark = 0, GetHiWatermark = 0, GetSize = 0, GetCost = 0,
                 GetLifetime = 0\<rparr>)"

definition isTypeDirType :: "CFileCacheSet \<Rightarrow> string \<Rightarrow> bool" where
  "isTypeDirType s typeName =
    (case cacheTypes s typeName of Some fc \<Rightarrow> fc_dirType fc | None \<Rightarrow> False)"

text \<open>Modelled from the spec: object-indexed operations "consult a reverse index
  \<^verbatim>\<open>id -> typeName\<close>" (section 4.5; \<^verbatim>\<open>CFileCacheSet::GetTypeForObjectId\<close> is missing).
  An id without an entry has the empty type name.\<close>

definition GetTypeForObjectId :: "CFileCacheSet \<Rightarrow> cachedObjectId_t \<Rightarrow> string" where
  "GetTypeForObjectId s objId =
    (case idMap s objId of Some typeName \<Rightarrow> typeName | None \<Rightarrow> [])"

text \<open>Modelled from the spec: the object an id denotes is the entry of the id in the
  object table of the type that the reverse index names (sections 4.4 and 4.5).\<close>

definition FindObject :: "CFileCacheSet \<Rightarrow> cachedObjectId_t \<Rightarrow> CCachedObject option" where
  "FindObject s objId =
    (case idMap s objId of
       None \<Rightarrow> None
     | Some typeName \<Rightarrow>
        (case cacheTypes s typeName of None \<Rightarrow> None | Some fc \<Rightarrow> fc_objects fc objId))"

text \<open>Modelled from the spec: "\<^verbatim>\<open>Remove(id)\<close>: removes from in-memory map, decrements
  \<^verbatim>\<open>usedBytes\<close>, deletes on-disk path" (section 4.4; \<^verbatim>\<open>CFileCache\<close> is missing).\<close>

definition Remove :: "cachedObjectId_t \<Rightarrow> CFileCache \<Rightarrow> CFileCache" where
  "Remove objId fc =
    (case fc_objects fc objId of
       None \<Rightarrow> fc
     | Some ob \<Rightarrow> fc\<lparr>fc_usedBytes := fc_usedBytes fc - co_size ob,
                     fc_objects := (fc_objects fc)(objId := None)\<rparr>)"

definition RemoveObject :: "CFileCacheSet \<Rightarrow> string \<Rightarrow> cachedObjectId_t \<Rightarrow> CFileCacheSet" where
  "RemoveObject s typeName objId =
    (case cacheTypes s typeName of
       None \<Rightarrow> s
     | Some fc \<Rightarrow> s\<lparr>cacheTypes := (cacheTypes s)(typeName \<mapsto> Remove objId fc),
                    idMap := (idMap s)(objId := None),
                    onDisk := onDisk s - {(typeName, objId)}\<rparr>)"

text \<open>Modelled from the spec: setting \<^verbatim>\<open>pendingExpire\<close> replaces the record of the
  object in the table of its type and touches nothing else.\<close>

definition UpdateObject ::
  "CFileCacheSet \<Rightarrow> string \<Rightarrow> cachedObjectId_t \<Rightarrow> CCachedObject \<Rightarrow> CFileCacheSet" where
  "UpdateObject s typeName objId ob =
    (case cacheTypes s typeName of
       None \<Rightarrow> s
     | Some fc \<Rightarrow>
         s\<lparr>cacheTypes :=
             (cacheTypes s)(typeName \<mapsto> fc\<lparr>fc_objects := (fc_objects fc)(objId \<mapsto> ob)\<rparr>)\<rparr>)"

text \<open>Modelled from the spec: "\<^verbatim>\<open>Expire(id)\<close>: if evictable, \<^verbatim>\<open>Remove\<close>; else set
  \<^verbatim>\<open>pendingExpire\<close>, return \<^verbatim>\<open>DeferredExpire\<close>" (section 4.4;
  \<^verbatim>\<open>CFileCacheSet::ExpireCacheObject\<close> is missing). The result is \<open>False\<close> for the deferred
  expire, which the handler reports as \<^verbatim>\<open>FCInUseError\<close>. The specification does not say
  what happens for an id without an object; the model changes nothing and reports
  \<open>True\<close>.\<close>

definition Expire :: "CFileCacheSet \<Rightarrow> cachedObjectId_t \<Rightarrow> bool \<times> CFileCacheSet" where
  "Expire s objId =
    (case FindObject s objId of
       None \<Rightarrow> (True, s)
     | Some ob \<Rightarrow>
         if IsEvictable ob then (True, RemoveObject s (GetTypeForObjectId s objId) objId)
         else (False,
               UpdateObject s (GetTypeForObjectId s objId) objId (ob\<lparr>pendingExpire := True\<rparr>)))"

text \<open>Modelled from the spec: "\<^verbatim>\<open>Unsubscribe(id)\<close>: \<^verbatim>\<open>subscriberCount -= 1\<close>; if reaches
  0, \<^verbatim>\<open>writeOpen = false\<close>, and \<^verbatim>\<open>pendingExpire\<close>, remove immediately" (section 4.4;
  \<^verbatim>\<open>CFileCacheSet::UnSubscribeCacheObject\<close> is missing). An object without subscribers
  has nothing to release.\<close>

definition UnSubscribe :: "CFileCacheSet \<Rightarrow> string \<Rightarrow> cachedObjectId_t \<Rightarrow> CFileCacheSet" where
  "UnSubscribe s typeName objId =
    (case cacheTypes s typeName of
       None \<Rightarrow> s
     | Some fc \<Rightarrow>
        (case fc_objects fc objId of
           None \<Rightarrow> s
         | Some ob \<Rightarrow>
             if subscriberCount ob = 0 then s
             else
               (let ob' = ob\<lparr>subscriberCount := subscriberCount ob - 1\<rparr>
                in if subscriberCount ob' = 0
                   then (if pendingExpire ob' then RemoveObject s typeName objId
                         else UpdateObject s typeName objId (ob'\<lparr>writeOpen := False\<rparr>))
                   else UpdateObject s typeName objId ob')))"

text \<open>Modelled from the spec: "\<^verbatim>\<open>ChangeType(name, partial params) -> ok | ChangeError\<close>:
  partial update; omitted fields retain current value. \<^verbatim>\<open>hiWatermark\<close> (when nonzero) must
  remain strictly greater than \<^verbatim>\<open>loWatermark\<close>" (section 4.5;
  \<^verbatim>\<open>CFileCacheSet::ChangeType\<close> is missing). The handler passes 0 for a property the
  request omits, so a field that is 0 keeps the current value. The operation fails, and
  changes nothing, for an unknown type and for a nonzero hiWatermark that would not be
  above the loWatermark after the update.\<close>

definition Configure :: "CCacheParamValues \<Rightarrow> CCacheParamValues \<Rightarrow> CCacheParamValues" where
  "Configure cur p =
    \<lparr>GetLoWatermark = (if GetLoWatermark p = 0 then GetLoWatermark cur else GetLoWatermark p),
     GetHiWatermark = (if GetHiWatermark p = 0 then GetHiWatermark cur else GetHiWatermark p),
     GetSize = (if GetSize p = 0 then GetSize cur else GetSize p),
     GetCost = (if GetCost p = 0 then GetCost cur else GetCost p),
     GetLifetime = (if GetLifetime p = 0 then GetLifetime cur else GetLifetime p)\<rparr>"

definition ChangeTypeParams ::
  "CFileCacheSet \<Rightarrow> string \<Rightarrow> CCacheParamValues \<Rightarrow> bool \<times> string \<times> CFileCacheSet" where
  "ChangeTypeParams s typeName p =
    (case cacheTypes s typeName of
       None \<Rightarrow> (False, ''ChangeType: No type '' @ quote @ typeName @ quote @ '' defined.'', s)
     | Some fc \<Rightarrow>
         (let new = Configure (fc_params fc) p
          in if GetHiWatermark p \<noteq> 0 \<and> GetHiWatermark new \<le> GetLoWatermark new
             then (False, ''ChangeType: hiWatermark must be greater than loWatermark.'', s)
             else (True, [],
                   s\<lparr>cacheTypes := (cacheTypes s)(typeName \<mapsto> fc\<lparr>fc_params := new\<rparr>)\<rparr>)))"

text \<open>The cache set of the specification as an implementation of the methods the
  handlers call. \<open>rest\<close> supplies the methods that the specification does not determine
  far enough to be written down (insertion with its eviction order, the path a
  subscriber receives, the maintenance sweeps, the creation of a type directory, the
  size and file name reported for an object).\<close>

definition CFileCacheSet_spec ::
  "CFileCacheSet CFileCacheSet_methods \<Rightarrow> CFileCacheSet CFileCacheSet_methods" where
  "CFileCacheSet_spec rest =
     rest\<lparr>cs_TypeExists := TypeExists,
          cs_DescribeType := DescribeType,
          cs_isTypeDirType := isTypeDirType,
          cs_GetBaseDirName := baseDirName,
          cs_GetTypeForObjectId := GetTypeForObjectId,
          cs_ChangeType := ChangeTypeParams,
          cs_UnSubscribeCacheObject := UnSubscribe,
          cs_ExpireCacheObject := Expire\<rparr>"

section \<open>Instances for the closed examples\<close>

text \<open>
  The theorems about the handlers hold for every implementation of the collaborators.
  The closed examples need one of each. The definitions of this section are such
  instances, and nothing else depends on them.
\<close>

subsection \<open>The helpers of CacheBase\<close>

text \<open>Modelled from the spec: the path codec of section 4.1 (\<^verbatim>\<open>CacheBase\<close> is missing).
  The full path is \<^verbatim>\<open><root>/<typeName>/<shard>/<tail>\<close>; the id is written as 16
  hexadecimal digits, the first two are the shard directory; decoding tolerates trailing
  content after the digits of the tail and yields 0 for a malformed path; the type name
  is the first segment after the root, and empty for a path that is not under the
  root.\<close>

definition hex_value :: "char \<Rightarrow> nat option" where
  "hex_value c =
     map_of (zip ''0123456789abcdef'' [0, 1, 2, 3, 4, 5, 6, 7, 8, 9, 10, 11, 12, 13, 14, 15]) c"

fun parse_hex :: "string \<Rightarrow> cachedObjectId_t \<Rightarrow> cachedObjectId_t" where
  "parse_hex [] acc = acc"
| "parse_hex (c # cs) acc =
     (case hex_value c of None \<Rightarrow> 0 | Some d \<Rightarrow> parse_hex cs (acc * 16 + of_nat d))"

fun segments :: "string \<Rightarrow> string \<Rightarrow> string list" where
  "segments cur [] = [cur]"
| "segments cur (c # cs) =
     (if c = CHR ''/'' then cur # segments [] cs else segments (cur @ [c]) cs)"

definition example_GetTypeNameFromPath :: "string \<Rightarrow> string \<Rightarrow> string" where
  "example_GetTypeNameFromPath base path =
     (if take (length base + 1) path = base @ ''/''
      then takeWhile (\<lambda>c. c \<noteq> CHR ''/'') (drop (length base + 1) path)
      else [])"

definition example_GetObjectIdFromPath :: "string \<Rightarrow> cachedObjectId_t" where
  "example_GetObjectIdFromPath path =
     (case rev (segments [] path) of
        tail # shard # _ \<Rightarrow>
          if length shard = 2
          then parse_hex (shard @ takeWhile (\<lambda>c. hex_value c \<noteq> None) tail) 0
          else 0
      | _ \<Rightarrow> 0)"

fun hex_digits :: "nat \<Rightarrow> nat \<Rightarrow> string" where
  "hex_digits k n =
     (if k = 0 then []
      else hex_digits (k - 1) (n div 16) @ [''0123456789abcdef'' ! (n mod 16)])"

declare hex_digits.simps [simp del]

text \<open>Modelled from the spec: the extension of a file name starts at its last period
  and the basename is what precedes it, so that \<^verbatim>\<open>foo.bar\<close> becomes \<^verbatim>\<open>foo-(1).bar\<close>
  (sections 4.8 and 8; \<^verbatim>\<open>GetFileExtension\<close> and \<^verbatim>\<open>GetFileBasename\<close> are missing).\<close>

definition example_GetFileExtension :: "string \<Rightarrow> string" where
  "example_GetFileExtension f =
     (if CHR ''.'' \<in> set f then CHR ''.'' # rev (takeWhile (\<lambda>c. c \<noteq> CHR ''.'') (rev f)) else [])"

definition example_GetFileBasename :: "string \<Rightarrow> string" where
  "example_GetFileBasename f =
     (if CHR ''.'' \<in> set f then rev (tl (dropWhile (\<lambda>c. c \<noteq> CHR ''.'') (rev f))) else f)"

definition example_BuildPathname ::
  "cachedObjectId_t \<Rightarrow> string \<Rightarrow> string \<Rightarrow> string \<Rightarrow> string" where
  "example_BuildPathname objId base typeName fileName =
     (let digits = hex_digits 16 (unat objId)
      in base @ ''/'' @ typeName @ ''/'' @ take 2 digits @ ''/'' @ drop 2 digits
           @ example_GetFileExtension fileName)"

text \<open>Modelled from the spec: a filesystem block of 4096 bytes, the bound 1000 that
  section 5 gives as an example for \<^verbatim>\<open>MaxUniqueFileIndex\<close>, and the downloads directory
  that \<^verbatim>\<open>create_default_cachedir\<close> creates as the default destination.\<close>

definition example_base :: CacheBase where
  "example_base =
     \<lparr>GetObjectIdFromPath = example_GetObjectIdFromPath,
      GetTypeNameFromPath = example_GetTypeNameFromPath,
      BuildPathname = example_BuildPathname,
      GetFilesystemFileSize = (\<lambda>blocks. blocks * 4096),
      GetFileExtension = example_GetFileExtension,
      GetFileBasename = example_GetFileBasename,
      s_maxUniqueFileIndex = 1000,
      s_defaultDownloadDir = ''/media/internal/downloads''\<rparr>"

subsection \<open>A cache set\<close>

text \<open>Modelled from the spec: the admission of an insertion that fits,
  "if \<^verbatim>\<open>usedBytes + size <= hiWatermark\<close>, admit immediately", which "allocates next id,
  creates the on-disk path, inserts the record" (section 4.4;
  \<^verbatim>\<open>CFileCacheSet::InsertCacheObject\<close> is missing). The eviction that makes room for an
  insertion that does not fit is not modelled: the examples report that there is no
  space. They run at time 0.\<close>

definition example_InsertCacheObject ::
  "CFileCacheSet \<Rightarrow> string \<Rightarrow> string \<Rightarrow> int \<Rightarrow> int \<Rightarrow> int
    \<Rightarrow> cachedObjectId_t \<times> string \<times> CFileCacheSet" where
  "example_InsertCacheObject s typeName fileName sz cost lifetime =
    (case cacheTypes s typeName of
       None \<Rightarrow> (0, ''InsertCacheObject: no type.'', s)
     | Some fc \<Rightarrow>
         if fc_usedBytes fc + sz \<le> GetHiWatermark (fc_params fc) then
           (let objId = idCounter s;
                ob = \<lparr>co_filename = fileName, co_size = sz, co_cost = cost,
                      co_lifetime = lifetime, createdAt = 0, lastAccessAt = 0,
                      writeOpen = True, subscriberCount = 0, pendingExpire = False\<rparr>
            in (objId, [],
                s\<lparr>cacheTypes :=
                    (cacheTypes s)(typeName \<mapsto>
                       fc\<lparr>fc_usedBytes := fc_usedBytes fc + sz,
                          fc_objects := (fc_objects fc)(objId \<mapsto> ob)\<rparr>),
                  idMap := (idMap s)(objId \<mapsto> typeName),
                  idCounter := objId + 1,
                  onDisk := insert (typeName, objId) (onDisk s)\<rparr>))
         else (0, ''InsertCacheObject: no space.'', s))"

text \<open>Modelled from the spec: "\<^verbatim>\<open>Subscribe(id)\<close>: \<^verbatim>\<open>subscriberCount += 1\<close>; the caller
  receives the filesystem path" (section 4.4; \<^verbatim>\<open>CFileCacheSet::SubscribeCacheObject\<close> is
  missing).\<close>

definition example_SubscribeCacheObject ::
  "CFileCacheSet \<Rightarrow> string \<Rightarrow> cachedObjectId_t \<Rightarrow> string \<times> string \<times> CFileCacheSet" where
  "example_SubscribeCacheObject s msgText objId =
    (case FindObject s objId of
       None \<Rightarrow> ([], ''SubscribeCacheObject: no object.'', s)
     | Some ob \<Rightarrow>
         (example_BuildPathname objId (baseDirName s) (GetTypeForObjectId s objId)
            (co_filename ob),
          msgText,
          UpdateObject s (GetTypeForObjectId s objId) objId
            (ob\<lparr>subscriberCount := subscriberCount ob + 1\<rparr>)))"

text \<open>Modelled from the spec: the remaining methods, as the examples need them. A new
  type starts empty with the parameters given (its directory is created without
  failure); the size of an object that is not found is negative, as the handlers
  expect, and its file name is empty; the sweeps find nothing to repair.\<close>

definition example_DefineType ::
  "CFileCacheSet \<Rightarrow> string \<Rightarrow> CCacheParamValues \<Rightarrow> bool \<Rightarrow> bool \<times> string \<times> CFileCacheSet" where
  "example_DefineType s typeName params dirType =
    (if TypeExists s typeName then (False, ''DefineType: type exists.'', s)
     else (True, [],
           s\<lparr>cacheTypes :=
               (cacheTypes s)(typeName \<mapsto>
                  \<lparr>fc_params = params, fc_dirType = dirType, fc_usedBytes = 0,
                   fc_objects = Map.empty\<rparr>)\<rparr>))"

definition example_rest :: "CFileCacheSet CFileCacheSet_methods" where
  "example_rest =
     \<lparr>cs_TypeExists = TypeExists,
      cs_DescribeType = DescribeType,
      cs_isTypeDirType = isTypeDirType,
      cs_GetBaseDirName = baseDirName,
      cs_GetTypeForObjectId = GetTypeForObjectId,
      cs_CachedObjectSize =
        (\<lambda>s objId. case FindObject s objId of Some ob \<Rightarrow> co_size ob | None \<Rightarrow> - 1),
      cs_CachedObjectFilename =
        (\<lambda>s objId. case FindObject s objId of Some ob \<Rightarrow> co_filename ob | None \<Rightarrow> []),
      cs_DefineType = example_DefineType,
      cs_ChangeType = ChangeTypeParams,
      cs_InsertCacheObject = example_InsertCacheObject,
      cs_SubscribeCacheObject = example_SubscribeCacheObject,
      cs_UnSubscribeCacheObject = UnSubscribe,
      cs_ExpireCacheObject = Expire,
      cs_CleanupOrphans = (\<lambda>s. s),
      cs_CheckSubscribedObject = (\<lambda>s typeName objId. s),
      cs_CleanupDirTypes = (\<lambda>s. s)\<rparr>"

definition example_methods :: "CFileCacheSet CFileCacheSet_methods" where
  "example_methods = CFileCacheSet_spec example_rest"

text \<open>A cache set with the file type \<^verbatim>\<open>T\<close>, which holds the subscribed object 1 and
  the unused object 2, and the empty directory type \<^verbatim>\<open>D\<close>.\<close>

definition example_object :: "string \<Rightarrow> nat \<Rightarrow> CCachedObject" where
  "example_object name n =
     \<lparr>co_filename = name, co_size = 100, co_cost = 1, co_lifetime = 60, createdAt = 0,
      lastAccessAt = 0, writeOpen = False, subscriberCount = n, pendingExpire = False\<rparr>"

definition example_set :: CFileCacheSet where
  "example_set =
     \<lparr>baseDirName = ''/var/file-cache'',
      cacheTypes =
        [''T'' \<mapsto>
           \<lparr>fc_params = \<lparr>GetLoWatermark = 500, GetHiWatermark = 1000, GetSize = 100,
                          GetCost = 1, GetLifetime = 60\<rparr>,
            fc_dirType = False,
            fc_usedBytes = 200,
            fc_objects = [1 \<mapsto> example_object ''foo.bar'' 1, 2 \<mapsto> example_object ''a.txt'' 0]\<rparr>,
         ''D'' \<mapsto>
           \<lparr>fc_params = \<lparr>GetLoWatermark = 8192, GetHiWatermark = 65536, GetSize = 4096,
                          GetCost = 1, GetLifetime = 60\<rparr>,
            fc_dirType = True,
            fc_usedBytes = 0,
            fc_objects = Map.empty\<rparr>],
      idMap = [1 \<mapsto> ''T'', 2 \<mapsto> ''T''],
      idCounter = 3,
      onDisk = {(''T'', 1), (''T'', 2)}\<rparr>"

definition example_subscription :: Subscription where
  "example_subscription =
     \<lparr>m_msg = 7, m_pathName = ''/var/file-cache/T/00/00000000000001.bar''\<rparr>"

definition example_handler :: "CFileCacheSet CategoryHandler" where
  "example_handler = \<lparr>m_fileCacheSet = example_set, m_subscribers = [example_subscription]\<rparr>"

subsection \<open>A filesystem and a sandbox\<close>

text \<open>A filesystem given by the paths of its files and of its directories, whose calls
  do not fail, and a sandbox that allows the paths under \<^verbatim>\<open>/media/internal\<close>. Appending
  to a path adds a separator unless the path is empty or ends with one.\<close>

record example_fs =
  files :: "string list"
  dirs :: "string list"

definition example_platform :: "example_fs Platform" where
  "example_platform =
     \<lparr>SBIsPathAllowed = (\<lambda>path sender. take 15 path = ''/media/internal''),
      fs_exists = (\<lambda>fs p. Inr (p \<in> set (files fs) \<or> p \<in> set (dirs fs))),
      fs_create_directories = (\<lambda>fs p. Inr (fs\<lparr>dirs := p # dirs fs\<rparr>)),
      fs_is_directory = (\<lambda>fs p. Inr (p \<in> set (dirs fs))),
      path_append =
        (\<lambda>dir name. if dir = [] \<or> last dir = CHR ''/'' then dir @ name
                     else dir @ ''/'' @ name)\<rparr>"

definition downloads :: "string list \<Rightarrow> example_fs" where
  "downloads names =
     \<lparr>files = map (\<lambda>name. ''/media/internal/downloads/'' @ name) names,
      dirs = [''/media/internal/downloads'']\<rparr>"

section \<open>Properties of the handlers\<close>

lemmas payload_defs = get_int_def get_string_def get_bool_def get_found_def

lemmas example_defs =
  example_methods_def CFileCacheSet_spec_def example_rest_def example_handler_def
  example_set_def example_object_def example_subscription_def

lemmas example_base_defs =
  example_base_def example_GetObjectIdFromPath_def example_GetTypeNameFromPath_def
  example_GetFileExtension_def example_GetFileBasename_def hex_value_def

subsection \<open>DefineType for a type that exists\<close>

text \<open>
  C3, as stated: every DefineType request naming a type that already exists is answered
  with \<^verbatim>\<open>ExistsError\<close>. The handler checks the watermarks of the request before it looks
  the name up: a request for the existing type \<^verbatim>\<open>T\<close> with \<open>loWatermark = 10\<close> and
  \<open>hiWatermark = 5\<close> is answered with \<^verbatim>\<open>InvalidParams\<close>.
\<close>

theorem DefineType_existing_invalid_watermarks:
  "cs_TypeExists example_methods (m_fileCacheSet example_handler) ''T'' \<and>
   DefineType False example_methods example_handler
     [''typeName'' \<mapsto> JString ''T'', ''loWatermark'' \<mapsto> JInt 10, ''hiWatermark'' \<mapsto> JInt 5]
   = (example_handler,
      replyError FCInvalidParams
        ''DefineType: Invalid params: hiWatermark must be greater than loWatermark.'')"
  by (simp add: DefineType_def payload_defs example_defs TypeExists_def)

text \<open>
  C3, amended: for every DefineType request naming a type that already exists (in the
  build without \<^verbatim>\<open>NEEDS_CONFIGURATOR_FIX\<close>), the handler and its cache set are left as
  they were, so the parameters of the type are unchanged; the reply is \<^verbatim>\<open>ExistsError\<close>
  when the hiWatermark of the request is greater than its loWatermark, whatever the
  other parameters are, and \<^verbatim>\<open>InvalidParams\<close> otherwise.
\<close>

theorem DefineType_existing_type:
  assumes "cs_TypeExists cs (m_fileCacheSet h) (get_string payload ''typeName'')"
  shows "DefineType False cs h payload =
      (h,
       if get_int payload ''loWatermark'' 0 < get_int payload ''hiWatermark'' 0
       then replyError FCExistsError
              (''DefineType: Type '' @ quote @ get_string payload ''typeName'' @ quote
                 @ '' already exists.'')
       else replyError FCInvalidParams
              ''DefineType: Invalid params: hiWatermark must be greater than loWatermark.'')
    \<and> cs_DescribeType cs (m_fileCacheSet (fst (DefineType False cs h payload)))
          (get_string payload ''typeName'')
        = cs_DescribeType cs (m_fileCacheSet h) (get_string payload ''typeName'')"
  using assms by (simp add: DefineType_def Let_def)

theorem DefineType_existing_type_witness:
  "DefineType False example_methods example_handler
     [''typeName'' \<mapsto> JString ''T'', ''loWatermark'' \<mapsto> JInt 10, ''hiWatermark'' \<mapsto> JInt 20,
      ''size'' \<mapsto> JInt 7]
   = (example_handler, replyError FCExistsError ''DefineType: Type 'T' already exists.'')"
proof -
  let ?payload = "[''typeName'' \<mapsto> JString ''T'', ''loWatermark'' \<mapsto> JInt 10,
                   ''hiWatermark'' \<mapsto> JInt 20, ''size'' \<mapsto> JInt 7]"
  have known: "cs_TypeExists example_methods (m_fileCacheSet example_handler)
                 (get_string ?payload ''typeName'')"
    by (simp add: payload_defs example_defs TypeExists_def)
  from DefineType_existing_type [OF known, THEN conjunct1]
  show ?thesis by (simp add: payload_defs)
qed

subsection \<open>InsertCacheObject: the checks before the insertion\<close>

text \<open>
  C10: for every InsertCacheObject request whose typeName does not name a defined type,
  the reply carries the error code \<^verbatim>\<open>InvalidParams\<close> (the code of the size check for
  directory types, not \<^verbatim>\<open>ExistsError\<close>), the insertion of the cache set is not called
  and the handler, with its cache set and its subscribers, is left as it was.
\<close>

theorem InsertCacheObject_unknown_type:
  assumes "\<not> cs_TypeExists cs (m_fileCacheSet h) (get_string payload ''typeName'')"
  shows "InsertCacheObject cs cb h msg payload =
      (h,
       replyError FCInvalidParams
         (if get_int payload ''size''
               (GetSize (cs_DescribeType cs (m_fileCacheSet h) (get_string payload ''typeName'')))
               \<le> GetFilesystemFileSize cb 1
             \<and> cs_isTypeDirType cs (m_fileCacheSet h) (get_string payload ''typeName'')
          then ''InsertCacheObject: Invalid params: size must be greater than 1 block when dirType = true.''
          else ''InsertCacheObject: No type '' @ quote @ get_string payload ''typeName'' @ quote
                 @ '' defined.''))"
  using assms by (simp add: InsertCacheObject_def Let_def)

theorem InsertCacheObject_unknown_type_witness:
  "InsertCacheObject example_methods example_base example_handler 3
     [''typeName'' \<mapsto> JString ''U'', ''fileName'' \<mapsto> JString ''a.txt'']
   = (example_handler,
      replyError FCInvalidParams ''InsertCacheObject: No type 'U' defined.'')"
proof -
  let ?payload = "[''typeName'' \<mapsto> JString ''U'', ''fileName'' \<mapsto> JString ''a.txt'']"
  have unknown: "\<not> cs_TypeExists example_methods (m_fileCacheSet example_handler)
                     (get_string ?payload ''typeName'')"
    by (simp add: payload_defs example_defs TypeExists_def)
  from InsertCacheObject_unknown_type [OF unknown, of example_base 3]
  show ?thesis
    by (simp add: payload_defs example_defs isTypeDirType_def)
qed

text \<open>
  C4: for every InsertCacheObject into a type with dirType = true, a size (from the
  payload or the default of the type) of at most one filesystem block is answered with
  \<^verbatim>\<open>InvalidParams\<close> and the handler and its cache set are left as they were; with a
  larger size the check passes: the insertion of the cache set is called with that size,
  and the reply is a success when it returns an object id and its \<^verbatim>\<open>ExistsError\<close>
  otherwise.
\<close>

theorem InsertCacheObject_dirType_size:
  assumes "cs_TypeExists cs (m_fileCacheSet h) typeName"
    and "cs_isTypeDirType cs (m_fileCacheSet h) typeName"
    and "typeName = get_string payload ''typeName''"
    and "sz = get_int payload ''size'' (GetSize (cs_DescribeType cs (m_fileCacheSet h) typeName))"
    and "params = cs_DescribeType cs (m_fileCacheSet h) typeName"
  shows "(sz \<le> GetFilesystemFileSize cb 1 \<longrightarrow>
            InsertCacheObject cs cb h msg payload =
              (h, replyError FCInvalidParams
                 ''InsertCacheObject: Invalid params: size must be greater than 1 block when dirType = true.''))
       \<and> (GetFilesystemFileSize cb 1 < sz \<longrightarrow>
            (case cs_InsertCacheObject cs (m_fileCacheSet h) typeName
                    (get_string payload ''fileName'') sz
                    (get_int payload ''cost'' (GetCost params))
                    (get_int payload ''lifetime'' (GetLifetime params)) of
               (objId, msgText, s1) \<Rightarrow>
                 if 0 < objId
                 then (\<exists>fields. snd (InsertCacheObject cs cb h msg payload) = replySuccess fields)
                 else InsertCacheObject cs cb h msg payload =
                        (h\<lparr>m_fileCacheSet := s1\<rparr>, replyError FCExistsError msgText)))"
  using assms
  by (auto simp add: InsertCacheObject_def Let_def split: prod.splits)

theorem InsertCacheObject_dirType_size_witness:
  "InsertCacheObject example_methods example_base example_handler 3
     [''typeName'' \<mapsto> JString ''D'', ''fileName'' \<mapsto> JString ''backup'']
   = (example_handler,
      replyError FCInvalidParams
        ''InsertCacheObject: Invalid params: size must be greater than 1 block when dirType = true.'')
   \<and> (\<exists>fields.
         snd (InsertCacheObject example_methods example_base example_handler 3
                [''typeName'' \<mapsto> JString ''D'', ''fileName'' \<mapsto> JString ''backup'',
                 ''size'' \<mapsto> JInt 4097])
         = replySuccess fields)"
proof -
  let ?s = "m_fileCacheSet example_handler"
  let ?p1 = "[''typeName'' \<mapsto> JString ''D'', ''fileName'' \<mapsto> JString ''backup'']"
  let ?p2 = "[''typeName'' \<mapsto> JString ''D'', ''fileName'' \<mapsto> JString ''backup'',
              ''size'' \<mapsto> JInt 4097]"
  have known: "cs_TypeExists example_methods ?s ''D''"
    and dir: "cs_isTypeDirType example_methods ?s ''D''"
    and params: "cs_DescribeType example_methods ?s ''D''
                   = \<lparr>GetLoWatermark = 8192, GetHiWatermark = 65536, GetSize = 4096,
                      GetCost = 1, GetLifetime = 60\<rparr>"
    by (simp_all add: example_defs TypeExists_def isTypeDirType_def DescribeType_def)
  have block: "GetFilesystemFileSize example_base 1 = 4096"
    by (simp add: example_base_def)
  have admitted:
    "fst (cs_InsertCacheObject example_methods ?s ''D'' ''backup'' 4097 1 60) = 3"
    by (simp add: example_defs example_InsertCacheObject_def Let_def)
  have "InsertCacheObject example_methods example_base example_handler 3 ?p1
          = (example_handler,
             replyError FCInvalidParams
               ''InsertCacheObject: Invalid params: size must be greater than 1 block when dirType = true.'')"
    using InsertCacheObject_dirType_size
            [OF known dir, of ?p1 4096 _ example_base 3, OF _ _ refl, THEN conjunct1]
    by (simp add: payload_defs params block)
  moreover
  have "\<exists>fields. snd (InsertCacheObject example_methods example_base example_handler 3 ?p2)
                    = replySuccess fields"
    using InsertCacheObject_dirType_size
            [OF known dir, of ?p2 4097 _ example_base 3, OF _ _ refl, THEN conjunct2] admitted
    by (simp add: payload_defs params block split: prod.splits)
  ultimately show ?thesis by simp
qed

text \<open>The boundary of the specification: a directory of one block and one byte is
  admitted, and the reply carries its path.\<close>

lemma InsertCacheObject_dirType_example:
  "snd (InsertCacheObject example_methods example_base example_handler 3
          [''typeName'' \<mapsto> JString ''D'', ''fileName'' \<mapsto> JString ''backup'',
           ''size'' \<mapsto> JInt 4097])
   = replySuccess [(''pathName'', JString ''/var/file-cache/D/00/00000000000003'')]"
proof -
  have "example_BuildPathname 3 ''/var/file-cache'' ''D'' ''backup''
          = ''/var/file-cache/D/00/00000000000003''"
    by (simp add: example_BuildPathname_def example_GetFileExtension_def hex_digits.simps)
  then show ?thesis
    by (simp add: InsertCacheObject_def Let_def payload_defs example_defs example_base_def
          example_InsertCacheObject_def TypeExists_def isTypeDirType_def DescribeType_def)
qed

subsection \<open>ExpireCacheObject for a path whose type is not the type of the object\<close>

text \<open>
  C8: for every ExpireCacheObject request whose pathName decodes to a nonzero object id
  and whose extracted type name differs from the type registered for that id, the
  expire of the cache set is not called and the handler is left as it was; when the
  extracted type name is not empty (the path lies under the cache root) the reply is a
  success, and only when it is empty is the reply \<^verbatim>\<open>ExistsError\<close>.
\<close>

theorem ExpireCacheObject_type_mismatch:
  assumes "0 < GetObjectIdFromPath cb pathName"
    and "GetTypeNameFromPath cb (cs_GetBaseDirName cs (m_fileCacheSet h)) pathName
           \<noteq> cs_GetTypeForObjectId cs (m_fileCacheSet h) (GetObjectIdFromPath cb pathName)"
    and "pathName = get_string payload ''pathName''"
  shows "ExpireCacheObject cs cb h payload =
      (h,
       if GetTypeNameFromPath cb (cs_GetBaseDirName cs (m_fileCacheSet h)) pathName = []
       then replyError FCExistsError ''ExpireCacheObject: pathName no longer found in cache.''
       else replySuccess [])"
  using assms by (simp add: ExpireCacheObject_def Let_def)

theorem ExpireCacheObject_type_mismatch_witness:
  "ExpireCacheObject example_methods example_base example_handler
     [''pathName'' \<mapsto> JString ''/var/file-cache/D/00/00000000000001.bar'']
   = (example_handler, replySuccess [])
   \<and> ExpireCacheObject example_methods example_base example_handler
     [''pathName'' \<mapsto> JString ''/tmp/T/00/00000000000001.bar'']
   = (example_handler,
      replyError FCExistsError ''ExpireCacheObject: pathName no longer found in cache.'')"
proof -
  let ?p1 = "''/var/file-cache/D/00/00000000000001.bar''"
  let ?p2 = "''/tmp/T/00/00000000000001.bar''"
  have base: "cs_GetBaseDirName example_methods (m_fileCacheSet example_handler)
                = ''/var/file-cache''"
    and registered: "cs_GetTypeForObjectId example_methods (m_fileCacheSet example_handler) 1
                = ''T''"
    by (simp_all add: example_defs GetTypeForObjectId_def)
  have id1: "GetObjectIdFromPath example_base ?p1 = 1"
    and id2: "GetObjectIdFromPath example_base ?p2 = 1"
    and type1: "GetTypeNameFromPath example_base ''/var/file-cache'' ?p1 = ''D''"
    and type2: "GetTypeNameFromPath example_base ''/var/file-cache'' ?p2 = []"
    by (simp_all add: example_base_defs)
  have "ExpireCacheObject example_methods example_base example_handler
          [''pathName'' \<mapsto> JString ?p1] = (example_handler, replySuccess [])"
    using ExpireCacheObject_type_mismatch
            [of example_base ?p1 example_methods example_handler "[''pathName'' \<mapsto> JString ?p1]"]
    by (simp add: payload_defs base registered id1 type1)
  moreover
  have "ExpireCacheObject example_methods example_base example_handler
          [''pathName'' \<mapsto> JString ?p2]
          = (example_handler,
             replyError FCExistsError ''ExpireCacheObject: pathName no longer found in cache.'')"
    using ExpireCacheObject_type_mismatch
            [of example_base ?p2 example_methods example_handler "[''pathName'' \<mapsto> JString ?p2]"]
    by (simp add: payload_defs base registered id2 type2)
  ultimately show ?thesis by simp
qed

subsection \<open>CopyCacheObject: the sandbox check\<close>

text \<open>
  C9: for every CopyCacheObject request, whatever the resolution of the cache object has
  produced (no error, \<^verbatim>\<open>ExistsError\<close> or \<^verbatim>\<open>ArgumentError\<close>), the sandbox check on the
  destination decides the reply when it denies: the reply is \<^verbatim>\<open>PermError\<close>, no copy is
  started and the filesystem is not touched.
\<close>

theorem CopyCacheObject_sandbox_denial:
  assumes "\<not> SBIsPathAllowed pf (copy_destination cb payload) senderName"
  shows "CopyCacheObject cs cb pf h fs senderName payload =
      (fs, Reply (replyError FCPermError
                    ''CopyCacheObject: Invalid destination, no write permission.''))"
  using assms by (simp add: CopyCacheObject_def Let_def split: prod.splits)

theorem CopyCacheObject_sandbox_denial_witness:
  "resolve_copy_source example_methods example_base (m_fileCacheSet example_handler)
     [''pathName'' \<mapsto> JString ''/var/file-cache/T/zz'', ''destination'' \<mapsto> JString ''/etc'']
   = (''CopyCacheObject: Invalid object id derived from pathname.'', FCExistsError, [])
   \<and> CopyCacheObject example_methods example_base example_platform example_handler
       (downloads []) ''com.example.app''
       [''pathName'' \<mapsto> JString ''/var/file-cache/T/zz'', ''destination'' \<mapsto> JString ''/etc'']
   = (downloads [],
      Reply (replyError FCPermError
               ''CopyCacheObject: Invalid destination, no write permission.''))"
proof -
  let ?payload = "[''pathName'' \<mapsto> JString ''/var/file-cache/T/zz'',
                   ''destination'' \<mapsto> JString ''/etc'']"
  have denied: "\<not> SBIsPathAllowed example_platform (copy_destination example_base ?payload)
                     ''com.example.app''"
    by (simp add: example_platform_def copy_destination_def payload_defs)
  have "resolve_copy_source example_methods example_base (m_fileCacheSet example_handler) ?payload
          = (''CopyCacheObject: Invalid object id derived from pathname.'', FCExistsError, [])"
    by (simp add: resolve_copy_source_def payload_defs example_base_defs)
  with CopyCacheObject_sandbox_denial [OF denied] show ?thesis by simp
qed

subsection \<open>ChangeType: the watermarks\<close>

text \<open>The check of the handler, for every cache set: it compares the hiWatermark with
  the loWatermark variable of the request, which is 0 when the request omits the
  property.\<close>

lemma ChangeType_rejected:
  assumes "get_int payload ''hiWatermark'' 0 \<noteq> 0"
    and "get_int payload ''hiWatermark'' 0 \<le> get_int payload ''loWatermark'' 0"
  shows "ChangeType cs h payload =
      (h, replyError FCInvalidParams
            ''ChangeType: Invalid params: hiWatermark must be greater than loWatermark.'')"
  using assms by (simp add: ChangeType_def Let_def)

lemma ChangeType_forwarded:
  assumes "get_int payload ''loWatermark'' 0 < get_int payload ''hiWatermark'' 0"
  shows "ChangeType cs h payload =
      (case cs_ChangeType cs (m_fileCacheSet h) (get_string payload ''typeName'')
              \<lparr>GetLoWatermark = get_int payload ''loWatermark'' 0,
               GetHiWatermark = get_int payload ''hiWatermark'' 0,
               GetSize = get_int payload ''size'' 0,
               GetCost = get_int payload ''cost'' 0,
               GetLifetime = get_int payload ''lifetime'' 0\<rparr> of
         (True, msgText, s') \<Rightarrow> (h\<lparr>m_fileCacheSet := s'\<rparr>, replySuccess [])
       | (False, msgText, s') \<Rightarrow> (h\<lparr>m_fileCacheSet := s'\<rparr>, replyError FCChangeError msgText))"
  using assms by (simp add: ChangeType_def Let_def)

lemma ChangeType_never_InvalidParams:
  assumes "get_int payload ''loWatermark'' 0 < get_int payload ''hiWatermark'' 0"
  shows "snd (ChangeType cs h payload) \<noteq> replyError FCInvalidParams msgText"
  using assms by (auto simp add: ChangeType_forwarded split: prod.splits bool.splits)

text \<open>
  C2, as stated: a ChangeType request with a nonzero hiWatermark that would leave the
  type with a hiWatermark not above its loWatermark is rejected with \<^verbatim>\<open>InvalidParams\<close>.
  The handler compares the hiWatermark with the loWatermark of the request only, which
  is 0 when the request omits it; what the current values of the type forbid is left to
  the cache set, whose failure the handler reports as \<^verbatim>\<open>ChangeError\<close>. For the type \<^verbatim>\<open>T\<close>
  with the watermarks 500 and 1000, the request with \<open>hiWatermark = 100\<close> and no
  loWatermark would leave the watermarks 500 and 100; it is rejected, the type is
  unchanged, and the error is \<^verbatim>\<open>ChangeError\<close>.
\<close>

theorem ChangeType_omitted_loWatermark:
  "Configure (DescribeType (m_fileCacheSet example_handler) ''T'')
     \<lparr>GetLoWatermark = 0, GetHiWatermark = 100, GetSize = 0, GetCost = 0, GetLifetime = 0\<rparr>
     = \<lparr>GetLoWatermark = 500, GetHiWatermark = 100, GetSize = 100, GetCost = 1,
        GetLifetime = 60\<rparr>
   \<and> ChangeType example_methods example_handler
       [''typeName'' \<mapsto> JString ''T'', ''hiWatermark'' \<mapsto> JInt 100]
     = (example_handler,
        replyError FCChangeError ''ChangeType: hiWatermark must be greater than loWatermark.'')"
  by (simp add: ChangeType_def Let_def payload_defs example_defs ChangeTypeParams_def
        Configure_def DescribeType_def)

text \<open>
  C2, amended: for every ChangeType request that supplies a nonzero hiWatermark, for a
  type whose hiWatermark is above its loWatermark, the hiWatermark of the type is
  strictly greater than its loWatermark after the request, omitted fields retaining
  their current values in the update. A request whose hiWatermark is not greater than
  the loWatermark of the same request (0 when the request omits it) is rejected by the
  handler with \<^verbatim>\<open>InvalidParams\<close>; any other request whose update would leave the
  hiWatermark not above the loWatermark is rejected by the cache set, and the reply is
  \<^verbatim>\<open>ChangeError\<close>; both leave the handler and the type unchanged. Every other request
  is answered with a success, and the type has the updated parameters.
\<close>

theorem ChangeType_watermarks:
  assumes "get_int payload ''hiWatermark'' 0 = hi" and "hi \<noteq> 0"
    and "get_int payload ''loWatermark'' 0 = lo"
    and "get_string payload ''typeName'' = typeName"
    and "cacheTypes (m_fileCacheSet h) typeName = Some fc"
    and "GetLoWatermark (fc_params fc) < GetHiWatermark (fc_params fc)"
    and "merged = Configure (fc_params fc)
                    \<lparr>GetLoWatermark = lo, GetHiWatermark = hi,
                     GetSize = get_int payload ''size'' 0,
                     GetCost = get_int payload ''cost'' 0,
                     GetLifetime = get_int payload ''lifetime'' 0\<rparr>"
    and "r = ChangeType (CFileCacheSet_spec rest) h payload"
  shows "GetLoWatermark (DescribeType (m_fileCacheSet (fst r)) typeName)
           < GetHiWatermark (DescribeType (m_fileCacheSet (fst r)) typeName)
       \<and> (hi \<le> lo \<longrightarrow>
            r = (h, replyError FCInvalidParams
                      ''ChangeType: Invalid params: hiWatermark must be greater than loWatermark.''))
       \<and> (lo < hi \<and> GetHiWatermark merged \<le> GetLoWatermark merged \<longrightarrow>
            r = (h, replyError FCChangeError
                      ''ChangeType: hiWatermark must be greater than loWatermark.''))
       \<and> (lo < hi \<and> GetLoWatermark merged < GetHiWatermark merged \<longrightarrow>
            snd r = replySuccess []
            \<and> DescribeType (m_fileCacheSet (fst r)) typeName = merged)"
proof -
  have current: "DescribeType (m_fileCacheSet h) typeName = fc_params fc"
    using assms(5) by (simp add: DescribeType_def)
  have rejected: "r = (h, replyError FCInvalidParams
      ''ChangeType: Invalid params: hiWatermark must be greater than loWatermark.'')"
    if "hi \<le> lo"
    using that assms(1-3,8) by (simp add: ChangeType_rejected)
  have refused: "r = (h, replyError FCChangeError
      ''ChangeType: hiWatermark must be greater than loWatermark.'')"
    if "lo < hi" and "GetHiWatermark merged \<le> GetLoWatermark merged"
    using that assms
    by (simp add: ChangeType_forwarded CFileCacheSet_spec_def ChangeTypeParams_def Let_def)
  have updated: "snd r = replySuccess [] \<and> DescribeType (m_fileCacheSet (fst r)) typeName = merged"
    if "lo < hi" and "GetLoWatermark merged < GetHiWatermark merged"
    using that assms
    by (simp add: ChangeType_forwarded CFileCacheSet_spec_def ChangeTypeParams_def Let_def
          DescribeType_def)
  have "GetLoWatermark (DescribeType (m_fileCacheSet (fst r)) typeName)
          < GetHiWatermark (DescribeType (m_fileCacheSet (fst r)) typeName)"
  proof (cases "hi \<le> lo")
    case True
    with rejected current assms(6) show ?thesis by simp
  next
    case False
    show ?thesis
    proof (cases "GetHiWatermark merged \<le> GetLoWatermark merged")
      case True
      with False refused current assms(6) show ?thesis by simp
    next
      case False
      with \<open>\<not> hi \<le> lo\<close> updated show ?thesis by simp
    qed
  qed
  with rejected refused updated show ?thesis by blast
qed

theorem ChangeType_watermarks_witness:
  "ChangeType example_methods example_handler
     [''typeName'' \<mapsto> JString ''T'', ''loWatermark'' \<mapsto> JInt 300, ''hiWatermark'' \<mapsto> JInt 200]
   = (example_handler,
      replyError FCInvalidParams
        ''ChangeType: Invalid params: hiWatermark must be greater than loWatermark.'')
   \<and> ChangeType example_methods example_handler
       [''typeName'' \<mapsto> JString ''T'', ''hiWatermark'' \<mapsto> JInt 400]
     = (example_handler,
        replyError FCChangeError ''ChangeType: hiWatermark must be greater than loWatermark.'')
   \<and> snd (ChangeType example_methods example_handler
            [''typeName'' \<mapsto> JString ''T'', ''loWatermark'' \<mapsto> JInt 300,
             ''hiWatermark'' \<mapsto> JInt 400])
     = replySuccess []
   \<and> DescribeType
       (m_fileCacheSet
          (fst (ChangeType example_methods example_handler
                  [''typeName'' \<mapsto> JString ''T'', ''loWatermark'' \<mapsto> JInt 300,
                   ''hiWatermark'' \<mapsto> JInt 400])))
       ''T''
     = \<lparr>GetLoWatermark = 300, GetHiWatermark = 400, GetSize = 100, GetCost = 1,
        GetLifetime = 60\<rparr>"
proof -
  let ?p1 = "[''typeName'' \<mapsto> JString ''T'', ''loWatermark'' \<mapsto> JInt 300,
              ''hiWatermark'' \<mapsto> JInt 200]"
  let ?p2 = "[''typeName'' \<mapsto> JString ''T'', ''hiWatermark'' \<mapsto> JInt 400]"
  let ?p3 = "[''typeName'' \<mapsto> JString ''T'', ''loWatermark'' \<mapsto> JInt 300,
              ''hiWatermark'' \<mapsto> JInt 400]"
  let ?fc = "\<lparr>fc_params = \<lparr>GetLoWatermark = 500, GetHiWatermark = 1000, GetSize = 100,
                             GetCost = 1, GetLifetime = 60\<rparr>,
               fc_dirType = False, fc_usedBytes = 200,
               fc_objects = [1 \<mapsto> example_object ''foo.bar'' 1,
                             2 \<mapsto> example_object ''a.txt'' 0]\<rparr>"
  have known: "cacheTypes (m_fileCacheSet example_handler) ''T'' = Some ?fc"
    by (simp add: example_handler_def example_set_def)
  have inv: "GetLoWatermark (fc_params ?fc) < GetHiWatermark (fc_params ?fc)"
    by simp
  note w = ChangeType_watermarks [OF _ _ _ _ known inv refl refl, of _ _ _ example_rest]
  have "ChangeType example_methods example_handler ?p1
          = (example_handler,
             replyError FCInvalidParams
               ''ChangeType: Invalid params: hiWatermark must be greater than loWatermark.'')"
    using w [of ?p1 200 300, THEN conjunct2, THEN conjunct1]
    by (simp add: payload_defs example_methods_def)
  moreover
  have "ChangeType example_methods example_handler ?p2
          = (example_handler,
             replyError FCChangeError
               ''ChangeType: hiWatermark must be greater than loWatermark.'')"
    using w [of ?p2 400 0, THEN conjunct2, THEN conjunct2, THEN conjunct1]
    by (simp add: payload_defs example_methods_def Configure_def)
  moreover
  have "snd (ChangeType example_methods example_handler ?p3) = replySuccess []
        \<and> DescribeType (m_fileCacheSet (fst (ChangeType example_methods example_handler ?p3)))
             ''T''
            = \<lparr>GetLoWatermark = 300, GetHiWatermark = 400, GetSize = 100, GetCost = 1,
               GetLifetime = 60\<rparr>"
    using w [of ?p3 400 300, THEN conjunct2, THEN conjunct2, THEN conjunct2]
    by (simp add: payload_defs example_methods_def Configure_def)
  ultimately show ?thesis by simp
qed

subsection \<open>ExpireCacheObject for an object in use\<close>

lemma FindObject_SomeD:
  assumes "FindObject s objId = Some ob"
  obtains fc where "idMap s objId = Some (GetTypeForObjectId s objId)"
    and "cacheTypes s (GetTypeForObjectId s objId) = Some fc"
    and "fc_objects fc objId = Some ob"
  using assms
  by (auto simp add: FindObject_def GetTypeForObjectId_def split: option.splits)

lemma Expire_in_use:
  assumes "FindObject s objId = Some ob" and "\<not> IsEvictable ob"
  shows "fst (Expire s objId) = False"
    and "FindObject (snd (Expire s objId)) objId = Some (ob\<lparr>pendingExpire := True\<rparr>)"
    and "onDisk (snd (Expire s objId)) = onDisk s"
    and "idMap (snd (Expire s objId)) = idMap s"
proof -
  from assms(1) obtain fc where
    "idMap s objId = Some (GetTypeForObjectId s objId)"
    "cacheTypes s (GetTypeForObjectId s objId) = Some fc"
    "fc_objects fc objId = Some ob"
    by (rule FindObject_SomeD)
  with assms show "fst (Expire s objId) = False"
    and "FindObject (snd (Expire s objId)) objId = Some (ob\<lparr>pendingExpire := True\<rparr>)"
    and "onDisk (snd (Expire s objId)) = onDisk s"
    and "idMap (snd (Expire s objId)) = idMap s"
    by (simp_all add: Expire_def UpdateObject_def FindObject_def)
qed

text \<open>
  C1: for every ExpireCacheObject request whose target object (the object of the
  nonzero id the path decodes to, in the type the path names) is not evictable, that is
  has \<open>subscriberCount > 0\<close> or \<open>writeOpen\<close>, the object stays in memory with its
  \<open>pendingExpire\<close> flag set, the entries on disk and the reverse index are unchanged,
  and the reply is the error \<^verbatim>\<open>InUseError\<close> of the deferred expire.
\<close>

theorem ExpireCacheObject_in_use:
  assumes "pathName = get_string payload ''pathName''"
    and "objId = GetObjectIdFromPath cb pathName"
    and "0 < objId"
    and "GetTypeNameFromPath cb (baseDirName (m_fileCacheSet h)) pathName
           = GetTypeForObjectId (m_fileCacheSet h) objId"
    and "FindObject (m_fileCacheSet h) objId = Some ob"
    and "0 < subscriberCount ob \<or> writeOpen ob"
    and "r = ExpireCacheObject (CFileCacheSet_spec rest) cb h payload"
  shows "snd r = replyError FCInUseError ''ExpireCacheObject: Expire deferred, object in use.''
       \<and> FindObject (m_fileCacheSet (fst r)) objId = Some (ob\<lparr>pendingExpire := True\<rparr>)
       \<and> onDisk (m_fileCacheSet (fst r)) = onDisk (m_fileCacheSet h)
       \<and> idMap (m_fileCacheSet (fst r)) = idMap (m_fileCacheSet h)
       \<and> m_subscribers (fst r) = m_subscribers h"
proof -
  from assms(6) have busy: "\<not> IsEvictable ob"
    by (auto simp add: IsEvictable_def)
  obtain b s' where e: "Expire (m_fileCacheSet h) objId = (b, s')"
    by (cases "Expire (m_fileCacheSet h) objId")
  with Expire_in_use [OF assms(5) busy]
  have "b = False"
    and "FindObject s' objId = Some (ob\<lparr>pendingExpire := True\<rparr>)"
    and "onDisk s' = onDisk (m_fileCacheSet h)"
    and "idMap s' = idMap (m_fileCacheSet h)"
    by simp_all
  moreover
  from assms(1-4,7) e \<open>b = False\<close>
  have "r = (h\<lparr>m_fileCacheSet := s'\<rparr>,
             replyError FCInUseError ''ExpireCacheObject: Expire deferred, object in use.'')"
    by (simp add: ExpireCacheObject_def CFileCacheSet_spec_def Let_def)
  ultimately show ?thesis by simp
qed

theorem ExpireCacheObject_in_use_witness:
  "snd (ExpireCacheObject example_methods example_base example_handler
          [''pathName'' \<mapsto> JString ''/var/file-cache/T/00/00000000000001.bar''])
     = replyError FCInUseError ''ExpireCacheObject: Expire deferred, object in use.''
   \<and> FindObject
       (m_fileCacheSet
          (fst (ExpireCacheObject example_methods example_base example_handler
                  [''pathName'' \<mapsto> JString ''/var/file-cache/T/00/00000000000001.bar''])))
       1
     = Some ((example_object ''foo.bar'' 1)\<lparr>pendingExpire := True\<rparr>)
   \<and> onDisk
       (m_fileCacheSet
          (fst (ExpireCacheObject example_methods example_base example_handler
                  [''pathName'' \<mapsto> JString ''/var/file-cache/T/00/00000000000001.bar''])))
     = {(''T'', 1), (''T'', 2)}"
proof -
  let ?path = "''/var/file-cache/T/00/00000000000001.bar''"
  have id: "GetObjectIdFromPath example_base ?path = 1"
    and type: "GetTypeNameFromPath example_base ''/var/file-cache'' ?path = ''T''"
    by (simp_all add: example_base_defs)
  have base: "baseDirName (m_fileCacheSet example_handler) = ''/var/file-cache''"
    and registered: "GetTypeForObjectId (m_fileCacheSet example_handler) 1 = ''T''"
    and found: "FindObject (m_fileCacheSet example_handler) 1 = Some (example_object ''foo.bar'' 1)"
    and disk: "onDisk (m_fileCacheSet example_handler) = {(''T'', 1), (''T'', 2)}"
    by (simp_all add: example_handler_def example_set_def GetTypeForObjectId_def FindObject_def)
  have busy: "0 < subscriberCount (example_object ''foo.bar'' 1)
                \<or> writeOpen (example_object ''foo.bar'' 1)"
    by (simp add: example_object_def)
  from ExpireCacheObject_in_use
         [of ?path "[''pathName'' \<mapsto> JString ?path]" 1 example_base example_handler
             "example_object ''foo.bar'' 1" _ example_rest, OF _ _ _ _ found busy refl]
  show ?thesis
    by (simp add: payload_defs id type base registered disk example_methods_def)
qed

subsection \<open>Cancelling a subscription\<close>

text \<open>A path that \<^verbatim>\<open>SubscribeCacheObject\<close> stores in a subscription has passed the two
  checks: it yields a nonzero object id, and the type name it yields is the one
  registered for that id.\<close>

lemma SubscribeCacheObject_stored_path:
  assumes "sub \<in> set (m_subscribers (fst (SubscribeCacheObject cs cb h msg payload)))"
    and "sub \<notin> set (m_subscribers h)"
  shows "0 < GetObjectIdFromPath cb (m_pathName sub)
       \<and> GetTypeNameFromPath cb (cs_GetBaseDirName cs (m_fileCacheSet h)) (m_pathName sub)
           = cs_GetTypeForObjectId cs (m_fileCacheSet h) (GetObjectIdFromPath cb (m_pathName sub))"
  using assms
  by (auto simp add: SubscribeCacheObject_def Let_def word_gt_0
        split: if_splits prod.splits)

lemma erase_subscription_set:
  assumes "distinct (map m_msg subs)" and "sub \<in> set subs"
  shows "set (erase_subscription sub subs) = set subs - {sub}"
  using assms
proof (induction subs)
  case Nil
  then show ?case by simp
next
  case (Cons x xs)
  show ?case
  proof (cases "m_msg x = m_msg sub")
    case True
    with Cons.prems have "sub = x" by force
    moreover from Cons.prems have "x \<notin> set xs" by force
    ultimately show ?thesis using True by auto
  next
    case False
    with Cons show ?thesis by auto
  qed
qed

text \<open>
  C7: for every subscription of the handler whose request is cancelled, the stored path
  yielding a nonzero object id and a type name, the entry is removed from the list of
  subscribers (the other entries stay) and the cache set is the one that
  \<^verbatim>\<open>UnSubscribeCacheObject\<close> returns for the type name and object id derived from the
  stored path. The subscribers are distinct objects.
\<close>

theorem HandleCancel_unsubscribes:
  assumes "sub \<in> set (m_subscribers h)"
    and "distinct (map m_msg (m_subscribers h))"
    and "objId = GetObjectIdFromPath cb (m_pathName sub)"
    and "typeName = GetTypeNameFromPath cb (cs_GetBaseDirName cs (m_fileCacheSet h)) (m_pathName sub)"
    and "0 < objId" and "typeName \<noteq> []"
  shows "m_fileCacheSet (HandleCancel cs cb h sub)
           = cs_UnSubscribeCacheObject cs (m_fileCacheSet h) typeName objId
       \<and> sub \<notin> set (m_subscribers (HandleCancel cs cb h sub))
       \<and> set (m_subscribers (HandleCancel cs cb h sub)) = set (m_subscribers h) - {sub}"
  using assms erase_subscription_set [OF assms(2) assms(1)]
  by (simp add: HandleCancel_def CancelSubscription_def Let_def)

theorem HandleCancel_unsubscribes_witness:
  "m_fileCacheSet (HandleCancel example_methods example_base example_handler example_subscription)
     = cs_UnSubscribeCacheObject example_methods example_set ''T'' 1
   \<and> m_subscribers (HandleCancel example_methods example_base example_handler example_subscription)
     = []"
proof -
  have id: "GetObjectIdFromPath example_base (m_pathName example_subscription) = 1"
    and type: "GetTypeNameFromPath example_base ''/var/file-cache''
                 (m_pathName example_subscription) = ''T''"
    by (simp_all add: example_base_defs example_subscription_def)
  have base: "cs_GetBaseDirName example_methods example_set = ''/var/file-cache''"
    and subs: "m_subscribers example_handler = [example_subscription]"
    and set: "m_fileCacheSet example_handler = example_set"
    by (simp_all add: example_methods_def CFileCacheSet_spec_def example_handler_def
          example_set_def)
  from HandleCancel_unsubscribes
         [of example_subscription example_handler 1 example_base "''T''" example_methods]
  show ?thesis
    by (simp add: id type base subs set)
qed

text \<open>The second scenario of the specification: the subscribed object 1 is expired,
  which is deferred; when its subscription is cancelled, the object leaves the memory
  and the disk. Without the expire, the cancellation only releases the object.\<close>

lemma expire_then_cancel_example:
  "FindObject
     (m_fileCacheSet
        (HandleCancel example_methods example_base
           (fst (ExpireCacheObject example_methods example_base example_handler
                   [''pathName'' \<mapsto> JString ''/var/file-cache/T/00/00000000000001.bar'']))
           example_subscription))
     1 = None
   \<and> onDisk
       (m_fileCacheSet
          (HandleCancel example_methods example_base
             (fst (ExpireCacheObject example_methods example_base example_handler
                     [''pathName'' \<mapsto> JString ''/var/file-cache/T/00/00000000000001.bar'']))
             example_subscription))
     = {(''T'', 2)}
   \<and> FindObject
       (m_fileCacheSet
          (HandleCancel example_methods example_base example_handler example_subscription))
       1 = Some (example_object ''foo.bar'' 0)"
proof -
  have id: "GetObjectIdFromPath example_base ''/var/file-cache/T/00/00000000000001.bar'' = 1"
    and type: "GetTypeNameFromPath example_base ''/var/file-cache''
                 ''/var/file-cache/T/00/00000000000001.bar'' = ''T''"
    by (simp_all add: example_base_defs)
  show ?thesis
    by (simp add: HandleCancel_def CancelSubscription_def ExpireCacheObject_def Let_def
          payload_defs example_defs id type Expire_def FindObject_def GetTypeForObjectId_def
          IsEvictable_def UpdateObject_def UnSubscribe_def RemoveObject_def Remove_def)
qed

subsection \<open>CopyCacheObject: a unique destination name\<close>

text \<open>The loop, one iteration at a time.\<close>

lemma unique_name_loop_step:
  assumes "fs_exists pf fs (path_append pf filepath fileName) = Inr True" and "i < maxIndex"
  shows "unique_name_loop pf fs maxIndex filepath basename extension fileName i
       = unique_name_loop pf fs maxIndex filepath basename extension
           (newFileName basename extension i) (i + 1)"
  using assms by (subst unique_name_loop.simps) simp

lemma unique_name_loop_free:
  assumes "fs_exists pf fs (path_append pf filepath fileName) = Inr False"
  shows "unique_name_loop pf fs maxIndex filepath basename extension fileName i
       = Inr (fileName, i)"
  using assms by (subst unique_name_loop.simps) simp

lemma unique_name_loop_bound:
  assumes "fs_exists pf fs (path_append pf filepath fileName) = Inr found"
    and "\<not> i < maxIndex"
  shows "unique_name_loop pf fs maxIndex filepath basename extension fileName i
       = Inr (fileName, i)"
  using assms by (subst unique_name_loop.simps) simp

lemma unique_name_loop_finds:
  assumes "1 \<le> i" and "i \<le> N" and "N + 1 < maxIndex"
    and "\<forall>j. i \<le> j \<and> j < N \<longrightarrow>
           fs_exists pf fs (path_append pf filepath (newFileName basename extension j)) = Inr True"
    and "fs_exists pf fs (path_append pf filepath (newFileName basename extension N)) = Inr False"
  shows "unique_name_loop pf fs maxIndex filepath basename extension
           (newFileName basename extension i) (i + 1)
       = Inr (newFileName basename extension N, N + 1)"
  using assms
proof (induction "nat (N - i)" arbitrary: i)
  case 0
  then have "i = N" by simp
  with 0 show ?case by (simp add: unique_name_loop_free)
next
  case (Suc n)
  then have "i < N" by simp
  with Suc.prems
  have ex: "fs_exists pf fs (path_append pf filepath (newFileName basename extension i)) = Inr True"
    by simp
  from Suc.prems \<open>i < N\<close> have "i + 1 < maxIndex" by simp
  from unique_name_loop_step [OF ex this]
  have "unique_name_loop pf fs maxIndex filepath basename extension
           (newFileName basename extension i) (i + 1)
      = unique_name_loop pf fs maxIndex filepath basename extension
           (newFileName basename extension (i + 1)) (i + 1 + 1)" .
  also have "\<dots> = Inr (newFileName basename extension N, N + 1)"
  proof (rule Suc.hyps(1))
    from Suc.hyps(2) show "n = nat (N - (i + 1))" by simp
  qed (use Suc.prems \<open>i < N\<close> in auto)
  finally show ?case .
qed

lemma unique_name_loop_exhausts:
  assumes "1 \<le> i" and "i < maxIndex"
    and "\<forall>j. i \<le> j \<and> j < maxIndex - 1 \<longrightarrow>
           fs_exists pf fs (path_append pf filepath (newFileName basename extension j)) = Inr True"
    and "\<exists>found. fs_exists pf fs
            (path_append pf filepath (newFileName basename extension (maxIndex - 1))) = Inr found"
  shows "unique_name_loop pf fs maxIndex filepath basename extension
           (newFileName basename extension i) (i + 1)
       = Inr (newFileName basename extension (maxIndex - 1), maxIndex)"
  using assms
proof (induction "nat (maxIndex - 1 - i)" arbitrary: i)
  case 0
  then have "i = maxIndex - 1" by simp
  with 0 obtain found where
    "fs_exists pf fs (path_append pf filepath (newFileName basename extension i)) = Inr found"
    by auto
  from unique_name_loop_bound [OF this, of "i + 1" maxIndex basename extension] \<open>i = maxIndex - 1\<close>
  show ?case by simp
next
  case (Suc n)
  then have "i < maxIndex - 1" by simp
  with Suc.prems
  have ex: "fs_exists pf fs (path_append pf filepath (newFileName basename extension i)) = Inr True"
    by simp
  from \<open>i < maxIndex - 1\<close> have "i + 1 < maxIndex" by simp
  from unique_name_loop_step [OF ex this]
  have "unique_name_loop pf fs maxIndex filepath basename extension
           (newFileName basename extension i) (i + 1)
      = unique_name_loop pf fs maxIndex filepath basename extension
           (newFileName basename extension (i + 1)) (i + 1 + 1)" .
  also have "\<dots> = Inr (newFileName basename extension (maxIndex - 1), maxIndex)"
  proof (rule Suc.hyps(1))
    from Suc.hyps(2) show "n = nat (maxIndex - 1 - (i + 1))" by simp
  qed (use Suc.prems \<open>i < maxIndex - 1\<close> in auto)
  finally show ?case .
qed

text \<open>The digits of the index: \<open>show_int\<close> writes the decimal numeral.\<close>

lemma digit_cases:
  assumes "d < (10::nat)"
  obtains "d = 0" | "d = 1" | "d = 2" | "d = 3" | "d = 4" | "d = 5" | "d = 6" | "d = 7"
    | "d = 8" | "d = 9"
proof -
  from assms have "d = 0 \<or> d = 1 \<or> d = 2 \<or> d = 3 \<or> d = 4 \<or> d = 5 \<or> d = 6 \<or> d = 7
      \<or> d = 8 \<or> d = 9"
    by presburger
  with that show thesis by blast
qed

lemma digit_char:
  assumes "d < 10"
  shows "digit_value (''0123456789'' ! d) = d"
    and "''0123456789'' ! d \<in> set ''0123456789''"
    and "''0123456789'' ! d = CHR ''0'' \<longleftrightarrow> d = 0"
  using assms by (cases d rule: digit_cases; simp add: digit_value_def)+

lemma decimal_value_snoc: "decimal_value (s @ [c]) = 10 * decimal_value s + digit_value c"
  by (simp add: decimal_value_def)

lemma show_nat_decimal:
  "show_nat n \<noteq> [] \<and> set (show_nat n) \<subseteq> set ''0123456789''
   \<and> (hd (show_nat n) = CHR ''0'' \<longrightarrow> n = 0) \<and> decimal_value (show_nat n) = n"
proof (induction n rule: show_nat.induct)
  case (1 n)
  show ?case
  proof (cases "n < 10")
    case True
    then have s: "show_nat n = [''0123456789'' ! n]"
      by (subst show_nat.simps) simp
    from digit_char [OF True] show ?thesis
      unfolding s by (simp add: decimal_value_def)
  next
    case False
    then have s: "show_nat n = show_nat (n div 10) @ [''0123456789'' ! (n mod 10)]"
      by (subst show_nat.simps) simp
    have m: "n mod 10 < 10" by simp
    from False have "n div 10 \<noteq> 0" by simp
    with 1 [OF False] digit_char [OF m] show ?thesis
      unfolding s by (auto simp add: decimal_value_snoc)
  qed
qed

lemma show_int_decimal:
  assumes "0 \<le> N"
  shows "is_decimal_of (show_int N) N"
proof -
  from assms have s: "show_int N = show_nat (nat N)"
    by (simp add: show_int_def)
  have z: "show_nat 0 = ''0''"
    by (subst show_nat.simps) simp
  from show_nat_decimal [of "nat N"] assms show ?thesis
    unfolding is_decimal_of_def s by (auto simp add: z)
qed

lemma all_below:
  "(\<forall>j::int. 1 \<le> j \<and> j < N \<longrightarrow> P j) \<longleftrightarrow> list_all P [1..N - 1]"
  by (auto simp add: list_all_iff)

text \<open>
  C5: for every CopyCacheObject whose chosen file name is taken in the destination
  directory (the sandbox allows the destination, the cache object is resolved, the
  destination is a directory and the filesystem calls do not fail), the names
  \<open>basename-(N)extension\<close>, with N written in decimal, are tried for N = 1, 2, ... in
  turn. If N is the first index whose name is free and \<open>N < s_maxUniqueFileIndex - 1\<close>,
  the copy is started to that name in the destination directory. If every name with
  \<open>1 \<le> N < s_maxUniqueFileIndex - 1\<close> is taken, the reply is \<^verbatim>\<open>ArgumentError\<close> and no copy
  is started. So the index of a destination is bounded by \<open>s_maxUniqueFileIndex\<close>, and the
  largest index that is used is \<open>s_maxUniqueFileIndex - 2\<close>.
\<close>

theorem CopyCacheObject_unique_destination:
  assumes allowed: "SBIsPathAllowed pf destination senderName"
    and dest: "destination = copy_destination cb payload"
    and resolved: "resolve_copy_source cs cb (m_fileCacheSet h) payload = ([], errCode, fileName)"
    and present: "fs_exists pf fs destination = Inr True"
    and dir: "fs_is_directory pf fs destination = Inr True"
    and noerr: "\<forall>name. \<exists>found. fs_exists pf fs (path_append pf destination name) = Inr found"
    and collides: "name_taken pf fs destination fileName"
    and bound: "1 \<le> s_maxUniqueFileIndex cb"
    and base: "basename = GetFileBasename cb fileName"
    and ext: "extension = GetFileExtension cb fileName"
  shows "(\<forall>N. 1 \<le> N \<and> N < s_maxUniqueFileIndex cb - 1
              \<and> \<not> name_taken pf fs destination
                    (basename @ ''-('' @ show_int N @ '')'' @ extension)
              \<and> (\<forall>j. 1 \<le> j \<and> j < N \<longrightarrow>
                    name_taken pf fs destination
                      (basename @ ''-('' @ show_int j @ '')'' @ extension)) \<longrightarrow>
            CopyCacheObject cs cb pf h fs senderName payload =
              (fs, CopyFile (get_string payload ''pathName'')
                     (destination @ ''/'' @ basename @ ''-('' @ show_int N @ '')'' @ extension)))
       \<and> ((\<forall>N. 1 \<le> N \<and> N < s_maxUniqueFileIndex cb - 1 \<longrightarrow>
                name_taken pf fs destination
                  (basename @ ''-('' @ show_int N @ '')'' @ extension)) \<longrightarrow>
            CopyCacheObject cs cb pf h fs senderName payload =
              (fs, Reply (replyError FCArgumentError
                            ''CopyCacheObject: No unique destination name found.'')))
       \<and> (\<forall>N. 0 \<le> N \<longrightarrow> is_decimal_of (show_int N) N)"
proof -
  define new where
    "new = newFileName (GetFileBasename cb fileName) (GetFileExtension cb fileName)"
  have name: "basename @ ''-('' @ show_int N @ '')'' @ extension = new N" for N
    by (simp add: new_def base ext newFileName_def)
  have main:
    "(\<forall>N. 1 \<le> N \<and> N < s_maxUniqueFileIndex cb - 1
              \<and> \<not> name_taken pf fs destination (new N)
              \<and> (\<forall>j. 1 \<le> j \<and> j < N \<longrightarrow> name_taken pf fs destination (new j)) \<longrightarrow>
            CopyCacheObject cs cb pf h fs senderName payload =
              (fs, CopyFile (get_string payload ''pathName'') (destination @ ''/'' @ new N)))
       \<and> ((\<forall>N. 1 \<le> N \<and> N < s_maxUniqueFileIndex cb - 1 \<longrightarrow> name_taken pf fs destination (new N)) \<longrightarrow>
            CopyCacheObject cs cb pf h fs senderName payload =
              (fs, Reply (replyError FCArgumentError
                            ''CopyCacheObject: No unique destination name found.'')))"
  proof (intro conjI allI impI)
    fix N
    assume a: "1 \<le> N \<and> N < s_maxUniqueFileIndex cb - 1
                \<and> \<not> name_taken pf fs destination (new N)
                \<and> (\<forall>j. 1 \<le> j \<and> j < N \<longrightarrow> name_taken pf fs destination (new j))"
    from noerr obtain found where
      "fs_exists pf fs (path_append pf destination (new N)) = Inr found" by blast
    with a have free: "fs_exists pf fs (path_append pf destination (new N)) = Inr False"
      by (cases found) (auto simp add: name_taken_def)
    from a have "1 < s_maxUniqueFileIndex cb" by simp
    with collides
    have "unique_name_loop pf fs (s_maxUniqueFileIndex cb) destination
            (GetFileBasename cb fileName) (GetFileExtension cb fileName) fileName 1
        = unique_name_loop pf fs (s_maxUniqueFileIndex cb) destination
            (GetFileBasename cb fileName) (GetFileExtension cb fileName) (new 1) (1 + 1)"
      unfolding new_def name_taken_def by (rule unique_name_loop_step)
    also have "\<dots> = Inr (new N, N + 1)"
      unfolding new_def
      by (rule unique_name_loop_finds) (use a free in \<open>auto simp add: new_def name_taken_def\<close>)
    finally have loop: "unique_name_loop pf fs (s_maxUniqueFileIndex cb) destination
            (GetFileBasename cb fileName) (GetFileExtension cb fileName) fileName 1
        = Inr (new N, N + 1)" .
    from a have "N + 1 \<noteq> s_maxUniqueFileIndex cb" by simp
    with loop present dir
    have "find_destination pf cb fs destination fileName
            = (fs, Inr (None, destination @ ''/'' @ new N))"
      by (simp add: find_destination_def)
    with allowed dest resolved
    show "CopyCacheObject cs cb pf h fs senderName payload =
            (fs, CopyFile (get_string payload ''pathName'') (destination @ ''/'' @ new N))"
      by (simp add: CopyCacheObject_def)
  next
    assume a: "\<forall>N. 1 \<le> N \<and> N < s_maxUniqueFileIndex cb - 1 \<longrightarrow> name_taken pf fs destination (new N)"
    have "\<exists>name. unique_name_loop pf fs (s_maxUniqueFileIndex cb) destination
            (GetFileBasename cb fileName) (GetFileExtension cb fileName) fileName 1
        = Inr (name, s_maxUniqueFileIndex cb)"
    proof (cases "1 < s_maxUniqueFileIndex cb")
      case False
      with bound have "s_maxUniqueFileIndex cb = 1" by simp
      with collides show ?thesis
        by (simp add: name_taken_def unique_name_loop_bound)
    next
      case True
      with collides
      have "unique_name_loop pf fs (s_maxUniqueFileIndex cb) destination
              (GetFileBasename cb fileName) (GetFileExtension cb fileName) fileName 1
          = unique_name_loop pf fs (s_maxUniqueFileIndex cb) destination
              (GetFileBasename cb fileName) (GetFileExtension cb fileName) (new 1) (1 + 1)"
        unfolding new_def name_taken_def by (rule unique_name_loop_step)
      also have "\<dots> = Inr (new (s_maxUniqueFileIndex cb - 1), s_maxUniqueFileIndex cb)"
        unfolding new_def
        by (rule unique_name_loop_exhausts) (use a True noerr in \<open>auto simp add: new_def name_taken_def\<close>)
      finally show ?thesis by blast
    qed
    then obtain name where "unique_name_loop pf fs (s_maxUniqueFileIndex cb) destination
            (GetFileBasename cb fileName) (GetFileExtension cb fileName) fileName 1
        = Inr (name, s_maxUniqueFileIndex cb)" ..
    with present dir
    have "find_destination pf cb fs destination fileName
            = (fs, Inr (Some (''CopyCacheObject: No unique destination name found.'',
                              FCArgumentError), []))"
      by (simp add: find_destination_def)
    with allowed dest resolved
    show "CopyCacheObject cs cb pf h fs senderName payload =
            (fs, Reply (replyError FCArgumentError
                          ''CopyCacheObject: No unique destination name found.''))"
      by (simp add: CopyCacheObject_def)
  qed
  have digits: "\<forall>N. 0 \<le> N \<longrightarrow> is_decimal_of (show_int N) N"
    by (simp add: show_int_decimal)
  from main digits show ?thesis
    by (simp only: name append_assoc [symmetric]) (simp only: append_assoc name, blast)
qed

theorem CopyCacheObject_unique_destination_witness:
  "CopyCacheObject example_methods example_base example_platform example_handler
     (downloads [''foo.bar'']) ''com.example.app''
     [''pathName'' \<mapsto> JString ''/var/file-cache/T/00/00000000000001.bar'']
   = (downloads [''foo.bar''],
      CopyFile ''/var/file-cache/T/00/00000000000001.bar''
        ''/media/internal/downloads/foo-(1).bar'')
   \<and> CopyCacheObject example_methods example_base example_platform example_handler
       (downloads [''foo.bar'', ''foo-(1).bar'']) ''com.example.app''
       [''pathName'' \<mapsto> JString ''/var/file-cache/T/00/00000000000001.bar'']
   = (downloads [''foo.bar'', ''foo-(1).bar''],
      CopyFile ''/var/file-cache/T/00/00000000000001.bar''
        ''/media/internal/downloads/foo-(2).bar'')
   \<and> CopyCacheObject example_methods example_base example_platform example_handler
       (downloads [''foo.bar'', ''foo-(1).bar'', ''foo-(2).bar'', ''foo-(3).bar'',
                   ''foo-(4).bar'', ''foo-(5).bar'', ''foo-(6).bar'', ''foo-(7).bar'',
                   ''foo-(8).bar'', ''foo-(9).bar''])
       ''com.example.app''
       [''pathName'' \<mapsto> JString ''/var/file-cache/T/00/00000000000001.bar'']
   = (downloads [''foo.bar'', ''foo-(1).bar'', ''foo-(2).bar'', ''foo-(3).bar'',
                 ''foo-(4).bar'', ''foo-(5).bar'', ''foo-(6).bar'', ''foo-(7).bar'',
                 ''foo-(8).bar'', ''foo-(9).bar''],
      CopyFile ''/var/file-cache/T/00/00000000000001.bar''
        ''/media/internal/downloads/foo-(10).bar'')
   \<and> CopyCacheObject example_methods (example_base\<lparr>s_maxUniqueFileIndex := 3\<rparr>)
       example_platform example_handler
       (downloads [''foo.bar'', ''foo-(1).bar'', ''foo-(2).bar'']) ''com.example.app''
       [''pathName'' \<mapsto> JString ''/var/file-cache/T/00/00000000000001.bar'']
   = (downloads [''foo.bar'', ''foo-(1).bar'', ''foo-(2).bar''],
      Reply (replyError FCArgumentError ''CopyCacheObject: No unique destination name found.''))"
proof -
  let ?path = "''/var/file-cache/T/00/00000000000001.bar''"
  let ?payload = "[''pathName'' \<mapsto> JString ?path]"
  let ?dir = "''/media/internal/downloads''"
  let ?cb3 = "example_base\<lparr>s_maxUniqueFileIndex := 3\<rparr>"
  let ?nine = "[''foo.bar'', ''foo-(1).bar'', ''foo-(2).bar'', ''foo-(3).bar'',
                ''foo-(4).bar'', ''foo-(5).bar'', ''foo-(6).bar'', ''foo-(7).bar'',
                ''foo-(8).bar'', ''foo-(9).bar'']"
  have dest: "copy_destination example_base ?payload = ?dir"
    "copy_destination ?cb3 ?payload = ?dir"
    by (simp_all add: copy_destination_def payload_defs example_base_def)
  have allowed: "SBIsPathAllowed example_platform ?dir ''com.example.app''"
    by (simp add: example_platform_def)
  have resolved:
    "resolve_copy_source example_methods example_base (m_fileCacheSet example_handler) ?payload
       = ([], FCErrorNone, ''foo.bar'')"
    "resolve_copy_source example_methods ?cb3 (m_fileCacheSet example_handler) ?payload
       = ([], FCErrorNone, ''foo.bar'')"
    by (simp_all add: resolve_copy_source_def payload_defs example_defs example_base_defs
          GetTypeForObjectId_def FindObject_def)
  have names: "GetFileBasename example_base ''foo.bar'' = ''foo''"
    "GetFileExtension example_base ''foo.bar'' = ''.bar''"
    "GetFileBasename ?cb3 ''foo.bar'' = ''foo''"
    "GetFileExtension ?cb3 ''foo.bar'' = ''.bar''"
    by (simp_all add: example_base_defs)
  have bound: "s_maxUniqueFileIndex example_base = 1000"
    by (simp add: example_base_def)
  have bound3: "1 \<le> s_maxUniqueFileIndex ?cb3"
    by simp
  have fs: "fs_exists example_platform (downloads taken) ?dir = Inr True"
    "fs_is_directory example_platform (downloads taken) ?dir = Inr True"
    "\<forall>name. \<exists>found. fs_exists example_platform (downloads taken)
                        (path_append example_platform ?dir name) = Inr found"
    for taken
    by (simp_all add: example_platform_def downloads_def)
  have taken: "name_taken example_platform (downloads taken) ?dir name \<longleftrightarrow> name \<in> set taken"
    for taken name
    by (auto simp add: name_taken_def example_platform_def downloads_def)
  have digits: "show_int 1 = ''1''" "show_int 2 = ''2''" "show_int 3 = ''3''"
    "show_int 4 = ''4''" "show_int 5 = ''5''" "show_int 6 = ''6''" "show_int 7 = ''7''"
    "show_int 8 = ''8''" "show_int 9 = ''9''" "show_int 10 = ''10''"
    by (simp_all add: show_int_def show_nat.simps)
  have copy:
    "CopyCacheObject example_methods example_base example_platform example_handler
       (downloads taken) ''com.example.app'' ?payload
     = (downloads taken, CopyFile ?path (?dir @ ''/'' @ ''foo'' @ ''-('' @ show_int N @ '')'' @ ''.bar''))"
    if "''foo.bar'' \<in> set taken" and "1 \<le> N" and "N < 999"
      and "''foo'' @ ''-('' @ show_int N @ '')'' @ ''.bar'' \<notin> set taken"
      and "\<forall>j. 1 \<le> j \<and> j < N \<longrightarrow> ''foo'' @ ''-('' @ show_int j @ '')'' @ ''.bar'' \<in> set taken"
    for taken N
    using CopyCacheObject_unique_destination
            [OF allowed dest(1) [symmetric] resolved(1) fs(1) fs(2) fs(3) _ _ refl refl,
             of taken, THEN conjunct1, rule_format, of N] that
    by (simp add: taken names bound payload_defs)
  have first: "CopyCacheObject example_methods example_base example_platform example_handler
          (downloads [''foo.bar'']) ''com.example.app'' ?payload
        = (downloads [''foo.bar''], CopyFile ?path ''/media/internal/downloads/foo-(1).bar'')"
    using copy [of "[''foo.bar'']" 1] by (simp add: digits all_below)
  have second: "CopyCacheObject example_methods example_base example_platform example_handler
          (downloads [''foo.bar'', ''foo-(1).bar'']) ''com.example.app'' ?payload
        = (downloads [''foo.bar'', ''foo-(1).bar''],
           CopyFile ?path ''/media/internal/downloads/foo-(2).bar'')"
    using copy [of "[''foo.bar'', ''foo-(1).bar'']" 2] by (simp add: digits all_below upto_rec1)
  have tenth: "CopyCacheObject example_methods example_base example_platform example_handler
          (downloads ?nine) ''com.example.app'' ?payload
        = (downloads ?nine, CopyFile ?path ''/media/internal/downloads/foo-(10).bar'')"
    using copy [of ?nine 10] by (simp add: digits all_below upto_rec1)
  have collides: "name_taken example_platform
                    (downloads [''foo.bar'', ''foo-(1).bar'', ''foo-(2).bar'']) ?dir ''foo.bar''"
    by (simp add: taken)
  have all_taken:
    "\<forall>N. 1 \<le> N \<and> N < s_maxUniqueFileIndex ?cb3 - 1 \<longrightarrow>
       name_taken example_platform (downloads [''foo.bar'', ''foo-(1).bar'', ''foo-(2).bar''])
         ?dir
         (GetFileBasename ?cb3 ''foo.bar'' @ ''-('' @ show_int N @ '')''
            @ GetFileExtension ?cb3 ''foo.bar'')"
  proof (intro allI impI)
    fix N :: int
    assume "1 \<le> N \<and> N < s_maxUniqueFileIndex ?cb3 - 1"
    then have "N = 1" by simp
    then show "name_taken example_platform
                 (downloads [''foo.bar'', ''foo-(1).bar'', ''foo-(2).bar'']) ?dir
                 (GetFileBasename ?cb3 ''foo.bar'' @ ''-('' @ show_int N @ '')''
                    @ GetFileExtension ?cb3 ''foo.bar'')"
      by (simp add: taken names digits)
  qed
  have exhausted: "CopyCacheObject example_methods ?cb3 example_platform example_handler
          (downloads [''foo.bar'', ''foo-(1).bar'', ''foo-(2).bar'']) ''com.example.app'' ?payload
        = (downloads [''foo.bar'', ''foo-(1).bar'', ''foo-(2).bar''],
           Reply (replyError FCArgumentError
                    ''CopyCacheObject: No unique destination name found.''))"
    using CopyCacheObject_unique_destination
            [OF allowed dest(2) [symmetric] resolved(2) fs(1) fs(2) fs(3) collides bound3 refl refl,
             THEN conjunct2, THEN conjunct1, THEN mp, OF all_taken]
    by (simp add: payload_defs)
  from first second tenth exhausted show ?thesis by simp
qed

text \<open>The end of the range, by running the handler: with the bound 3 the loop tries
  \<^verbatim>\<open>foo-(1).bar\<close> and \<^verbatim>\<open>foo-(2).bar\<close>; it leaves with the index 3 also when \<^verbatim>\<open>foo-(2).bar\<close>
  is free, so that name is not used.\<close>

lemma CopyCacheObject_last_index:
  "CopyCacheObject example_methods (example_base\<lparr>s_maxUniqueFileIndex := 3\<rparr>)
     example_platform example_handler
     (downloads [''foo.bar'', ''foo-(1).bar'']) ''com.example.app''
     [''pathName'' \<mapsto> JString ''/var/file-cache/T/00/00000000000001.bar'']
   = (downloads [''foo.bar'', ''foo-(1).bar''],
      Reply (replyError FCArgumentError ''CopyCacheObject: No unique destination name found.''))"
  by (simp add: CopyCacheObject_def Let_def copy_destination_def resolve_copy_source_def
        payload_defs example_defs example_base_defs example_platform_def downloads_def
        find_destination_def unique_name_loop.simps newFileName_def show_int_def
        show_nat.simps GetTypeForObjectId_def FindObject_def)

subsection \<open>The maintenance timers\<close>

lemma validate_subscribers_foldl:
  "validate_subscribers cs cb subs s =
     foldl (\<lambda>s sub. cs_CheckSubscribedObject cs s
                       (GetTypeNameFromPath cb (cs_GetBaseDirName cs s) (m_pathName sub))
                       (GetObjectIdFromPath cb (m_pathName sub)))
       s subs"
  by (induction subs arbitrary: s) (simp_all add: Let_def)

lemma timer_due: "15 * (n div 15) + 15 \<le> Suc n \<longleftrightarrow> 15 dvd Suc n"
proof -
  have "n = 15 * (n div 15) + n mod 15" by simp
  moreover have "n mod 15 < 15" by simp
  moreover have "15 dvd Suc n \<longleftrightarrow> n mod 15 = 14"
    by (simp add: dvd_eq_mod_eq_0 mod_Suc)
  ultimately show ?thesis by linarith
qed

lemma timer_next_fired: "15 dvd Suc n \<Longrightarrow> Suc n + 15 = 15 * (Suc n div 15) + 15"
  by simp

lemma timer_next_idle: "\<not> 15 dvd Suc n \<Longrightarrow> Suc n div 15 = n div 15"
  by (simp add: div_Suc dvd_eq_mod_eq_0)

lemma calls_until_Suc:
  "calls_until (Suc n) =
     calls_until n \<union> (if 15 dvd Suc n then {(Suc n, TimerCallback)} else {})
       \<union> (if Suc n = 120 then {(Suc n, CleanerCallback)} else {})"
  by (auto simp add: calls_until_def le_Suc_eq)

text \<open>One second of the main loop.\<close>

lemma dispatch_worker:
  "dispatch cs cb (Suc n)
     (\<lparr>interval = 15, func = TimerCallback, expires = 15 * (n div 15) + 15\<rparr> # srcs) (h, log)
   = (if 15 dvd Suc n
      then (case dispatch cs cb (Suc n) srcs (WorkerHandler cs cb h, log @ [(Suc n, TimerCallback)]) of
              (srcs', r) \<Rightarrow>
                (\<lparr>interval = 15, func = TimerCallback, expires = 15 * (Suc n div 15) + 15\<rparr> # srcs', r))
      else (case dispatch cs cb (Suc n) srcs (h, log) of
              (srcs', r) \<Rightarrow>
                (\<lparr>interval = 15, func = TimerCallback, expires = 15 * (Suc n div 15) + 15\<rparr> # srcs', r)))"
  by (simp add: timer_due timer_next_fired timer_next_idle)

lemma dispatch_cleaner:
  "n < 120 \<Longrightarrow>
   dispatch cs cb (Suc n) [\<lparr>interval = 120, func = CleanerCallback, expires = 120\<rparr>] (h, log)
   = (if Suc n = 120 then ([], CleanerHandler cs h, log @ [(Suc n, CleanerCallback)])
      else ([\<lparr>interval = 120, func = CleanerCallback, expires = 120\<rparr>], h, log))"
  by simp

lemma dispatch_timers:
  "\<exists>h' log'. dispatch cs cb (Suc n) (timers_at n) (h, log) = (timers_at (Suc n), h', log')
      \<and> set log' = set log \<union> (if 15 dvd Suc n then {(Suc n, TimerCallback)} else {})
                     \<union> (if Suc n = 120 then {(Suc n, CleanerCallback)} else {})"
proof (cases "n < 120")
  case True
  then show ?thesis
    unfolding timers_at_def by (simp add: dispatch_worker dispatch_cleaner del: dispatch.simps(2))
next
  case False
  then show ?thesis
    unfolding timers_at_def by (simp add: dispatch_worker del: dispatch.simps(2))
qed

lemma run_invariant:
  "now (run cs cb n (startup h)) = n
   \<and> sources (run cs cb n (startup h)) = timers_at n
   \<and> set (calls (run cs cb n (startup h))) = calls_until n"
proof (induction n)
  case 0
  show ?case
    by (auto simp add: startup_def SetupWorkerTimer_def g_timeout_add_seconds_def timers_at_def
          calls_until_def)
next
  case (Suc n)
  let ?ml = "run cs cb n (startup h)"
  from Suc have now: "now ?ml = n" and srcs: "sources ?ml = timers_at n"
    and log: "set (calls ?ml) = calls_until n"
    by simp_all
  from dispatch_timers [of cs cb n "handler ?ml" "calls ?ml"]
  obtain h' log' where
    d: "dispatch cs cb (Suc n) (timers_at n) (handler ?ml, calls ?ml) = (timers_at (Suc n), h', log')"
    and l: "set log' = set (calls ?ml) \<union> (if 15 dvd Suc n then {(Suc n, TimerCallback)} else {})
                     \<union> (if Suc n = 120 then {(Suc n, CleanerCallback)} else {})"
    by blast
  have "run cs cb (Suc n) (startup h)
          = \<lparr>now = Suc n, sources = timers_at (Suc n), handler = h', calls = log'\<rparr>"
    by (simp add: tick_def now srcs d)
  with l log show ?case
    by (simp add: calls_until_Suc)
qed

text \<open>
  C6, as stated: the cleaner task keeps running every 120 seconds. The callback of the
  cleaner returns \<^verbatim>\<open>false\<close>, so GLib destroys its timeout source after the first call,
  and nothing in the handler registers it again: the cleaner is called at second 120,
  it is not called at second 240, and the worker source is the only one left then.
\<close>

theorem cleaner_runs_once:
  "(120, CleanerCallback) \<in> set (calls (run example_methods example_base 240 (startup example_handler)))
   \<and> (240, CleanerCallback) \<notin> set (calls (run example_methods example_base 240 (startup example_handler)))
   \<and> sources (run example_methods example_base 240 (startup example_handler))
       = [\<lparr>interval = 15, func = TimerCallback, expires = 255\<rparr>]"
proof -
  from run_invariant [of example_methods example_base 240 example_handler]
  show ?thesis by (simp add: timers_at_def calls_until_def)
qed

text \<open>
  C6, amended: after the handler has been constructed, the worker task is called every
  15 seconds (at the seconds 15, 30, 45, ... and at no other), and each call runs
  \<^verbatim>\<open>CleanupOrphans\<close> and then \<^verbatim>\<open>CheckSubscribedObject\<close> for every subscription of the
  handler, in their order, with the type name and object id derived from the stored
  path; the cleaner task is called once, 120 seconds after the construction, runs
  \<^verbatim>\<open>CleanupDirTypes\<close>, and is not called again.
\<close>

theorem maintenance_timers:
  "((t, TimerCallback) \<in> set (calls (run cs cb n (startup h))) \<longleftrightarrow> 0 < t \<and> t \<le> n \<and> 15 dvd t)
   \<and> ((t, CleanerCallback) \<in> set (calls (run cs cb n (startup h))) \<longleftrightarrow> t = 120 \<and> 120 \<le> n)
   \<and> callback cs cb TimerCallback self
       = (self\<lparr>m_fileCacheSet :=
                 foldl (\<lambda>s sub. cs_CheckSubscribedObject cs s
                                   (GetTypeNameFromPath cb (cs_GetBaseDirName cs s) (m_pathName sub))
                                   (GetObjectIdFromPath cb (m_pathName sub)))
                   (cs_CleanupOrphans cs (m_fileCacheSet self)) (m_subscribers self)\<rparr>,
          True)
   \<and> callback cs cb CleanerCallback self
       = (self\<lparr>m_fileCacheSet := cs_CleanupDirTypes cs (m_fileCacheSet self)\<rparr>, False)"
proof -
  from run_invariant [of cs cb n h]
  have "set (calls (run cs cb n (startup h))) = calls_until n" by simp
  then show ?thesis
    by (simp add: calls_until_def WorkerHandler_def CleanerHandler_def validate_subscribers_foldl)
qed

theorem maintenance_timers_witness:
  "(30, TimerCallback) \<in> set (calls (run example_methods example_base 130 (startup example_handler)))
   \<and> (31, TimerCallback) \<notin> set (calls (run example_methods example_base 130 (startup example_handler)))
   \<and> (120, CleanerCallback) \<in> set (calls (run example_methods example_base 130 (startup example_handler)))
   \<and> fst (callback example_methods example_base TimerCallback example_handler) = example_handler"
proof -
  from maintenance_timers [of 30 example_methods example_base 130 example_handler example_handler]
       maintenance_timers [of 31 example_methods example_base 130 example_handler example_handler]
       maintenance_timers [of 120 example_methods example_base 130 example_handler example_handler]
  show ?thesis
    by (simp add: example_defs)
qed


end
